theory Spec2Isabelle
  imports Complex_Main "HOL-Library.Word" "HOL-Library.Signed_Division" "HOL-Library.Multiset"
begin

section \<open>Go values\<close>

text \<open>
  Go's \<open>int\<close> is the machine word of the platform; the image the repository builds
  (golang:1.22-alpine on amd64/arm64) has 64-bit ints. Arithmetic wraps around silently,
  comparisons are signed. \<open>time.Time\<close> values are instants on a line; every timestamp
  the handlers store is \<open>time.Now().UTC()\<close>, which carries no monotonic reading, so an
  instant is modelled as the integer count of nanoseconds.
\<close>

type_synonym go_int = "64 word"
type_synonym Time = int

datatype panic = SliceBoundsOutOfRange | IntegerDivideByZero

text \<open>\<open>len(xs)\<close>, as an \<open>int\<close>.\<close>

definition len :: "'a list \<Rightarrow> go_int" where
  "len xs = of_nat (length xs)"

text \<open>
  The slice expression \<open>xs[low:high]\<close>: Go panics unless \<open>0 \<le> low \<le> high \<le> cap(xs)\<close>.
  Every slice expression of the store has \<open>high \<le> len(xs)\<close> by the clip that precedes
  it, so the upper bound is written against the length.
\<close>

definition slice_expr :: "'a list \<Rightarrow> go_int \<Rightarrow> go_int \<Rightarrow> panic + 'a list" where
  "slice_expr xs low high =
     (if 0 \<le>s low \<and> low \<le>s high \<and> high \<le>s len xs
      then Inr (take (nat (sint high) - nat (sint low)) (drop (nat (sint low)) xs))
      else Inl SliceBoundsOutOfRange)"

text \<open>Integer division truncates towards zero and panics on a zero divisor.\<close>

definition go_div :: "go_int \<Rightarrow> go_int \<Rightarrow> panic + go_int" where
  "go_div a b =
     (if b = 0 then Inl IntegerDivideByZero
      else Inr (word_of_int (sint a sdiv sint b)))"

subsection \<open>Ranging over a map\<close>

text \<open>
  A table is a Go map from identifiers to records. \<open>for _, v := range m\<close> visits every
  entry once, in an order the runtime chooses afresh for each loop; the order is the
  argument \<open>ks\<close> of every function that ranges over a table, and \<open>visits m ks\<close> says
  that \<open>ks\<close> is such an order.
\<close>

definition visits :: "('k \<rightharpoonup> 'v) \<Rightarrow> 'k list \<Rightarrow> bool" where
  "visits m ks \<longleftrightarrow> distinct ks \<and> set ks = dom m"

definition range_values :: "('k \<rightharpoonup> 'v) \<Rightarrow> 'k list \<Rightarrow> 'v list" where
  "range_values m ks = List.map_filter m ks"

subsection \<open>sort.Slice\<close>

text \<open>
  \<open>sort.Slice(xs, less)\<close> leaves \<open>xs\<close> a permutation of itself in which no element is
  \<open>less\<close> than one before it; it does not promise where equal elements go. The model
  is the insertion sort that keeps equal elements in their order of arrival: as the order
  of arrival is the arbitrary order \<open>ks\<close> of the range loop, every outcome of the
  library's sort is the outcome of this one for some \<open>ks\<close>.
\<close>

fun insert_by :: "('a \<Rightarrow> 'a \<Rightarrow> bool) \<Rightarrow> 'a \<Rightarrow> 'a list \<Rightarrow> 'a list" where
  "insert_by lt x [] = [x]"
| "insert_by lt x (y # ys) =
     (if lt y x then y # insert_by lt x ys else x # y # ys)"

definition sort_Slice :: "('a \<Rightarrow> 'a \<Rightarrow> bool) \<Rightarrow> 'a list \<Rightarrow> 'a list" where
  "sort_Slice lt xs = foldr (insert_by lt) xs []"

subsection \<open>The pagination window\<close>

text \<open>
  The last twelve lines of each of the five list functions are the same up to the element
  type:
  \<^verbatim>\<open>
  total := len(filtered)
  start := (page - 1) * limit
  end := start + limit
  if start >= total { return []T{}, total }
  if end > total { end = total }
  return filtered[start:end], total
  \<close>
\<close>

definition win_start :: "go_int \<Rightarrow> go_int \<Rightarrow> go_int" where
  "win_start page limit = (page - 1) * limit"

definition win_end :: "go_int \<Rightarrow> go_int \<Rightarrow> go_int \<Rightarrow> go_int" where
  "win_end tot page limit =
     (let end0 = win_start page limit + limit
      in if tot <s end0 then tot else end0)"

definition window :: "'a list \<Rightarrow> go_int \<Rightarrow> go_int \<Rightarrow> panic + ('a list \<times> go_int)" where
  "window filtered page limit =
     (let total = len filtered;
          start = win_start page limit
      in if total \<le>s start then Inr ([], total)
         else case slice_expr filtered start (win_end total page limit) of
                Inl p \<Rightarrow> Inl p
              | Inr xs \<Rightarrow> Inr (xs, total))"

section \<open>Models (internal/models)\<close>

text \<open>
  The enumerations of the models are Go string types (\<open>type TeapotMaterial string\<close>);
  the store compares them as strings. A pointer field (\<open>*string\<close>, \<open>*int\<close>) is an
  option. Field names carry a prefix for their struct, since several structs share names.
\<close>

type_synonym TeapotMaterial = string
type_synonym TeapotStyle = string
type_synonym TeaType = string
type_synonym CaffeineLevel = string
type_synonym BrewStatus = string

definition BrewPreparing :: BrewStatus where
  "BrewPreparing = ''preparing''"

record Teapot =
  tp_ID :: string
  tp_Name :: string
  tp_Material :: TeapotMaterial
  tp_CapacityMl :: go_int
  tp_Style :: TeapotStyle
  tp_Description :: "string option"
  tp_CreatedAt :: Time
  tp_UpdatedAt :: Time

record Tea =
  tea_ID :: string
  tea_Name :: string
  tea_Type :: TeaType
  tea_Origin :: "string option"
  tea_CaffeineLevel :: CaffeineLevel
  tea_SteepTempCelsius :: go_int
  tea_SteepTimeSeconds :: go_int
  tea_Description :: "string option"
  tea_CreatedAt :: Time
  tea_UpdatedAt :: Time

record Brew =
  brew_ID :: string
  brew_TeapotID :: string
  brew_TeaID :: string
  brew_Status :: BrewStatus
  brew_WaterTempCelsius :: go_int
  brew_Notes :: "string option"
  brew_StartedAt :: Time
  brew_CompletedAt :: "Time option"
  brew_CreatedAt :: Time
  brew_UpdatedAt :: Time

record Steep =
  steep_ID :: string
  steep_BrewID :: string
  steep_SteepNumber :: go_int
  steep_DurationSeconds :: go_int
  steep_Rating :: "go_int option"
  steep_Notes :: "string option"
  steep_CreatedAt :: Time

text \<open>The zero values a failed map lookup returns.\<close>

definition zero_Teapot :: Teapot where
  "zero_Teapot = \<lparr>tp_ID = [], tp_Name = [], tp_Material = [], tp_CapacityMl = 0,
     tp_Style = [], tp_Description = None, tp_CreatedAt = 0, tp_UpdatedAt = 0\<rparr>"

definition zero_Tea :: Tea where
  "zero_Tea = \<lparr>tea_ID = [], tea_Name = [], tea_Type = [], tea_Origin = None,
     tea_CaffeineLevel = [], tea_SteepTempCelsius = 0, tea_SteepTimeSeconds = 0,
     tea_Description = None, tea_CreatedAt = 0, tea_UpdatedAt = 0\<rparr>"

definition zero_Brew :: Brew where
  "zero_Brew = \<lparr>brew_ID = [], brew_TeapotID = [], brew_TeaID = [], brew_Status = [],
     brew_WaterTempCelsius = 0, brew_Notes = None, brew_StartedAt = 0,
     brew_CompletedAt = None, brew_CreatedAt = 0, brew_UpdatedAt = 0\<rparr>"

definition zero_Steep :: Steep where
  "zero_Steep = \<lparr>steep_ID = [], steep_BrewID = [], steep_SteepNumber = 0,
     steep_DurationSeconds = 0, steep_Rating = None, steep_Notes = None,
     steep_CreatedAt = 0\<rparr>"

text \<open>The query structs embed \<open>PaginationQuery\<close>.\<close>

record PaginationQuery =
  Page :: go_int
  Limit :: go_int

record TeapotQuery = PaginationQuery +
  q_Material :: "TeapotMaterial option"
  q_Style :: "TeapotStyle option"

record TeaQuery = PaginationQuery +
  q_Type :: "TeaType option"
  q_CaffeineLevel :: "CaffeineLevel option"

record BrewQuery = PaginationQuery +
  q_Status :: "BrewStatus option"
  q_TeapotID :: "string option"
  q_TeaID :: "string option"

section \<open>The store (internal/store/memory.go)\<close>

text \<open>
  The four tables. The lock is not modelled: every operation holds it from its first
  statement to its return, and the model runs one operation at a time.
\<close>

record MemoryStore =
  teapots :: "string \<rightharpoonup> Teapot"
  teas :: "string \<rightharpoonup> Tea"
  brews :: "string \<rightharpoonup> Brew"
  steeps :: "string \<rightharpoonup> Steep"

definition NewMemoryStore :: MemoryStore where
  "NewMemoryStore = \<lparr>teapots = Map.empty, teas = Map.empty, brews = Map.empty,
     steeps = Map.empty\<rparr>"

subsection \<open>Teapots\<close>

text \<open>The filter of the range loop: an entry that does not \<open>continue\<close> is appended.\<close>

definition keep_Teapot :: "TeapotQuery \<Rightarrow> Teapot \<Rightarrow> bool" where
  "keep_Teapot query t =
     (if q_Material query \<noteq> None \<and> tp_Material t \<noteq> the (q_Material query) then False
      else if q_Style query \<noteq> None \<and> tp_Style t \<noteq> the (q_Style query) then False
      else True)"

definition filtered_Teapots :: "MemoryStore \<Rightarrow> string list \<Rightarrow> TeapotQuery \<Rightarrow> Teapot list" where
  "filtered_Teapots s ks query = filter (keep_Teapot query) (range_values (teapots s) ks)"

definition sorted_Teapots :: "MemoryStore \<Rightarrow> string list \<Rightarrow> TeapotQuery \<Rightarrow> Teapot list" where
  "sorted_Teapots s ks query =
     sort_Slice (\<lambda>a b. tp_CreatedAt b < tp_CreatedAt a) (filtered_Teapots s ks query)"

definition ListTeapots ::
  "MemoryStore \<Rightarrow> string list \<Rightarrow> TeapotQuery \<Rightarrow> panic + (Teapot list \<times> go_int)" where
  "ListTeapots s ks query = window (sorted_Teapots s ks query) (Page query) (Limit query)"

definition CreateTeapot :: "MemoryStore \<Rightarrow> Teapot \<Rightarrow> MemoryStore" where
  "CreateTeapot s t = s\<lparr>teapots := (teapots s)(tp_ID t \<mapsto> t)\<rparr>"

definition GetTeapot :: "MemoryStore \<Rightarrow> string \<Rightarrow> Teapot \<times> bool" where
  "GetTeapot s id0 = (case teapots s id0 of None \<Rightarrow> (zero_Teapot, False) | Some t \<Rightarrow> (t, True))"

definition UpdateTeapot :: "MemoryStore \<Rightarrow> Teapot \<Rightarrow> MemoryStore" where
  "UpdateTeapot s t = s\<lparr>teapots := (teapots s)(tp_ID t \<mapsto> t)\<rparr>"

definition DeleteTeapot :: "MemoryStore \<Rightarrow> string \<Rightarrow> bool \<times> MemoryStore" where
  "DeleteTeapot s id0 =
     (if teapots s id0 = None then (False, s)
      else (True, s\<lparr>teapots := (teapots s)(id0 := None)\<rparr>))"

subsection \<open>Teas\<close>

definition keep_Tea :: "TeaQuery \<Rightarrow> Tea \<Rightarrow> bool" where
  "keep_Tea query t =
     (if q_Type query \<noteq> None \<and> tea_Type t \<noteq> the (q_Type query) then False
      else if q_CaffeineLevel query \<noteq> None \<and> tea_CaffeineLevel t \<noteq> the (q_CaffeineLevel query)
      then False
      else True)"

definition filtered_Teas :: "MemoryStore \<Rightarrow> string list \<Rightarrow> TeaQuery \<Rightarrow> Tea list" where
  "filtered_Teas s ks query = filter (keep_Tea query) (range_values (teas s) ks)"

definition sorted_Teas :: "MemoryStore \<Rightarrow> string list \<Rightarrow> TeaQuery \<Rightarrow> Tea list" where
  "sorted_Teas s ks query =
     sort_Slice (\<lambda>a b. tea_CreatedAt b < tea_CreatedAt a) (filtered_Teas s ks query)"

definition ListTeas ::
  "MemoryStore \<Rightarrow> string list \<Rightarrow> TeaQuery \<Rightarrow> panic + (Tea list \<times> go_int)" where
  "ListTeas s ks query = window (sorted_Teas s ks query) (Page query) (Limit query)"

definition CreateTea :: "MemoryStore \<Rightarrow> Tea \<Rightarrow> MemoryStore" where
  "CreateTea s t = s\<lparr>teas := (teas s)(tea_ID t \<mapsto> t)\<rparr>"

definition GetTea :: "MemoryStore \<Rightarrow> string \<Rightarrow> Tea \<times> bool" where
  "GetTea s id0 = (case teas s id0 of None \<Rightarrow> (zero_Tea, False) | Some t \<Rightarrow> (t, True))"

definition UpdateTea :: "MemoryStore \<Rightarrow> Tea \<Rightarrow> MemoryStore" where
  "UpdateTea s t = s\<lparr>teas := (teas s)(tea_ID t \<mapsto> t)\<rparr>"

definition DeleteTea :: "MemoryStore \<Rightarrow> string \<Rightarrow> bool \<times> MemoryStore" where
  "DeleteTea s id0 =
     (if teas s id0 = None then (False, s)
      else (True, s\<lparr>teas := (teas s)(id0 := None)\<rparr>))"

subsection \<open>Brews\<close>

definition keep_Brew :: "BrewQuery \<Rightarrow> Brew \<Rightarrow> bool" where
  "keep_Brew query b =
     (if q_Status query \<noteq> None \<and> brew_Status b \<noteq> the (q_Status query) then False
      else if q_TeapotID query \<noteq> None \<and> brew_TeapotID b \<noteq> the (q_TeapotID query) then False
      else if q_TeaID query \<noteq> None \<and> brew_TeaID b \<noteq> the (q_TeaID query) then False
      else True)"

definition filtered_Brews :: "MemoryStore \<Rightarrow> string list \<Rightarrow> BrewQuery \<Rightarrow> Brew list" where
  "filtered_Brews s ks query = filter (keep_Brew query) (range_values (brews s) ks)"

definition sorted_Brews :: "MemoryStore \<Rightarrow> string list \<Rightarrow> BrewQuery \<Rightarrow> Brew list" where
  "sorted_Brews s ks query =
     sort_Slice (\<lambda>a b. brew_CreatedAt b < brew_CreatedAt a) (filtered_Brews s ks query)"

definition ListBrews ::
  "MemoryStore \<Rightarrow> string list \<Rightarrow> BrewQuery \<Rightarrow> panic + (Brew list \<times> go_int)" where
  "ListBrews s ks query = window (sorted_Brews s ks query) (Page query) (Limit query)"

definition filtered_BrewsByTeapot :: "MemoryStore \<Rightarrow> string list \<Rightarrow> string \<Rightarrow> Brew list" where
  "filtered_BrewsByTeapot s ks teapotID =
     filter (\<lambda>b. brew_TeapotID b = teapotID) (range_values (brews s) ks)"

definition sorted_BrewsByTeapot :: "MemoryStore \<Rightarrow> string list \<Rightarrow> string \<Rightarrow> Brew list" where
  "sorted_BrewsByTeapot s ks teapotID =
     sort_Slice (\<lambda>a b. brew_CreatedAt b < brew_CreatedAt a) (filtered_BrewsByTeapot s ks teapotID)"

definition ListBrewsByTeapot ::
  "MemoryStore \<Rightarrow> string list \<Rightarrow> string \<Rightarrow> go_int \<Rightarrow> go_int \<Rightarrow> panic + (Brew list \<times> go_int)" where
  "ListBrewsByTeapot s ks teapotID page limit =
     window (sorted_BrewsByTeapot s ks teapotID) page limit"

definition CreateBrew :: "MemoryStore \<Rightarrow> Brew \<Rightarrow> MemoryStore" where
  "CreateBrew s b = s\<lparr>brews := (brews s)(brew_ID b \<mapsto> b)\<rparr>"

definition GetBrew :: "MemoryStore \<Rightarrow> string \<Rightarrow> Brew \<times> bool" where
  "GetBrew s id0 = (case brews s id0 of None \<Rightarrow> (zero_Brew, False) | Some b \<Rightarrow> (b, True))"

definition UpdateBrew :: "MemoryStore \<Rightarrow> Brew \<Rightarrow> MemoryStore" where
  "UpdateBrew s b = s\<lparr>brews := (brews s)(brew_ID b \<mapsto> b)\<rparr>"

definition DeleteBrew :: "MemoryStore \<Rightarrow> string \<Rightarrow> bool \<times> MemoryStore" where
  "DeleteBrew s id0 =
     (if brews s id0 = None then (False, s)
      else (True, s\<lparr>brews := (brews s)(id0 := None)\<rparr>))"

subsection \<open>Steeps\<close>

definition filtered_SteepsByBrew :: "MemoryStore \<Rightarrow> string list \<Rightarrow> string \<Rightarrow> Steep list" where
  "filtered_SteepsByBrew s ks brewID =
     filter (\<lambda>steep. steep_BrewID steep = brewID) (range_values (steeps s) ks)"

definition sorted_SteepsByBrew :: "MemoryStore \<Rightarrow> string list \<Rightarrow> string \<Rightarrow> Steep list" where
  "sorted_SteepsByBrew s ks brewID =
     sort_Slice (\<lambda>a b. steep_SteepNumber a <s steep_SteepNumber b)
       (filtered_SteepsByBrew s ks brewID)"

definition ListSteepsByBrew ::
  "MemoryStore \<Rightarrow> string list \<Rightarrow> string \<Rightarrow> go_int \<Rightarrow> go_int \<Rightarrow> panic + (Steep list \<times> go_int)" where
  "ListSteepsByBrew s ks brewID page limit =
     window (sorted_SteepsByBrew s ks brewID) page limit"

text \<open>\<open>count++\<close> for every steep of the brew that the range loop visits.\<close>

definition CountSteepsByBrew :: "MemoryStore \<Rightarrow> string list \<Rightarrow> string \<Rightarrow> go_int" where
  "CountSteepsByBrew s ks brewID =
     foldl (\<lambda>count steep. if steep_BrewID steep = brewID then count + 1 else count) 0
       (range_values (steeps s) ks)"

definition CreateSteep :: "MemoryStore \<Rightarrow> Steep \<Rightarrow> MemoryStore" where
  "CreateSteep s steep = s\<lparr>steeps := (steeps s)(steep_ID steep \<mapsto> steep)\<rparr>"

definition GetSteep :: "MemoryStore \<Rightarrow> string \<Rightarrow> Steep \<times> bool" where
  "GetSteep s id0 = (case steeps s id0 of None \<Rightarrow> (zero_Steep, False) | Some t \<Rightarrow> (t, True))"

section \<open>Handlers (internal/handlers)\<close>

text \<open>
  A handler turns a request into a response and, when it writes, a new store. What gin
  and the other libraries do is an argument of the handler: the outcome of
  \<open>c.ShouldBindQuery\<close> or \<open>c.ShouldBindJSON\<close> (\<open>Inl\<close> the error's text, \<open>Inr\<close> the
  bound struct), whether \<open>uuid.Parse\<close> accepts a string (\<open>uuid_Parse\<close>), the identifier
  \<open>uuid.New().String()\<close> (\<open>new_id\<close>) and the reading \<open>time.Now().UTC()\<close> (\<open>now\<close>).
\<close>

record Error =
  Code :: string
  Message :: string

datatype 'a response = JSON int 'a | JSONError int Error | Status int

definition StatusOK :: int where "StatusOK = 200"
definition StatusCreated :: int where "StatusCreated = 201"
definition StatusBadRequest :: int where "StatusBadRequest = 400"
definition StatusNotFound :: int where "StatusNotFound = 404"

definition validation_error :: "string \<Rightarrow> 'a response" where
  "validation_error msg = JSONError StatusBadRequest \<lparr>Code = ''VALIDATION_ERROR'', Message = msg\<rparr>"

definition not_found :: "string \<Rightarrow> 'a response" where
  "not_found msg = JSONError StatusNotFound \<lparr>Code = ''NOT_FOUND'', Message = msg\<rparr>"

record Pagination =
  pg_Page :: go_int
  pg_Limit :: go_int
  pg_Total :: go_int
  pg_TotalPages :: go_int

text \<open>\<open>TeapotListResponse\<close>, \<open>TeaListResponse\<close>, \<open>BrewListResponse\<close>, \<open>SteepListResponse\<close>.\<close>

record 'a ListResponse =
  lr_Data :: "'a list"
  lr_Pagination :: Pagination

record CreateBrewRequest =
  cb_TeapotID :: string
  cb_TeaID :: string
  cb_WaterTempCelsius :: "go_int option"
  cb_Notes :: "string option"

record PatchBrewRequest =
  pb_Status :: "BrewStatus option"
  pb_Notes :: "string option"
  pb_CompletedAt :: "Time option"

record CreateSteepRequest =
  cs_DurationSeconds :: go_int
  cs_Rating :: "go_int option"
  cs_Notes :: "string option"

record PatchTeapotRequest =
  ptp_Name :: "string option"
  ptp_Material :: "TeapotMaterial option"
  ptp_CapacityMl :: "go_int option"
  ptp_Style :: "TeapotStyle option"
  ptp_Description :: "string option"

record UpdateTeaRequest =
  ut_Name :: string
  ut_Type :: TeaType
  ut_Origin :: "string option"
  ut_CaffeineLevel :: CaffeineLevel
  ut_SteepTempCelsius :: go_int
  ut_SteepTimeSeconds :: go_int
  ut_Description :: "string option"

record PatchTeaRequest =
  ptea_Name :: "string option"
  ptea_Type :: "TeaType option"
  ptea_Origin :: "string option"
  ptea_CaffeineLevel :: "CaffeineLevel option"
  ptea_SteepTempCelsius :: "go_int option"
  ptea_SteepTimeSeconds :: "go_int option"
  ptea_Description :: "string option"

text \<open>
  What a successful \<open>ShouldBindQuery\<close> has checked of the pagination fields, from the
  tags \<open>binding:"omitempty,min=1"\<close> of \<open>Page\<close> and \<open>binding:"omitempty,min=1,max=100"\<close>
  of \<open>Limit\<close>: an absent or zero field passes, any other value must be in range.
\<close>

definition binding_PaginationQuery :: "'a PaginationQuery_scheme \<Rightarrow> bool" where
  "binding_PaginationQuery query \<longleftrightarrow>
     (Page query = 0 \<or> 1 \<le>s Page query) \<and>
     (Limit query = 0 \<or> (1 \<le>s Limit query \<and> Limit query \<le>s 100))"

subsection \<open>Listing\<close>

text \<open>The block \<open>// Set defaults\<close> of the five list handlers.\<close>

definition set_defaults :: "'a PaginationQuery_scheme \<Rightarrow> 'a PaginationQuery_scheme" where
  "set_defaults query =
     (let query = (if Page query = 0 then query\<lparr>Page := 1\<rparr> else query)
      in if Limit query = 0 then query\<lparr>Limit := 20\<rparr> else query)"

text \<open>
  \<^verbatim>\<open>
  totalPages := (total + query.Limit - 1) / query.Limit
  if totalPages < 0 { totalPages = 0 }
  \<close>
\<close>

definition totalPages_of :: "go_int \<Rightarrow> go_int \<Rightarrow> panic + go_int" where
  "totalPages_of tot limit =
     (case go_div (tot + limit - 1) limit of
        Inl p \<Rightarrow> Inl p
      | Inr totalPages \<Rightarrow> Inr (if totalPages <s 0 then 0 else totalPages))"

definition list_response ::
  "'a list \<Rightarrow> go_int \<Rightarrow> go_int \<Rightarrow> go_int \<Rightarrow> panic + 'a ListResponse response" where
  "list_response data page limit tot =
     (case totalPages_of tot limit of
        Inl p \<Rightarrow> Inl p
      | Inr totalPages \<Rightarrow>
          Inr (JSON StatusOK \<lparr>lr_Data = data,
                 lr_Pagination = \<lparr>pg_Page = page, pg_Limit = limit, pg_Total = tot,
                   pg_TotalPages = totalPages\<rparr>\<rparr>))"

definition TeapotHandler_List ::
  "MemoryStore \<Rightarrow> string list \<Rightarrow> string + TeapotQuery \<Rightarrow> panic + Teapot ListResponse response" where
  "TeapotHandler_List s ks bound =
     (case bound of
        Inl err \<Rightarrow> Inr (validation_error err)
      | Inr query0 \<Rightarrow>
          let query = set_defaults query0
          in case ListTeapots s ks query of
               Inl p \<Rightarrow> Inl p
             | Inr (teapots', tot) \<Rightarrow> list_response teapots' (Page query) (Limit query) tot)"

definition TeaHandler_List ::
  "MemoryStore \<Rightarrow> string list \<Rightarrow> string + TeaQuery \<Rightarrow> panic + Tea ListResponse response" where
  "TeaHandler_List s ks bound =
     (case bound of
        Inl err \<Rightarrow> Inr (validation_error err)
      | Inr query0 \<Rightarrow>
          let query = set_defaults query0
          in case ListTeas s ks query of
               Inl p \<Rightarrow> Inl p
             | Inr (teas', tot) \<Rightarrow> list_response teas' (Page query) (Limit query) tot)"

definition BrewHandler_List ::
  "MemoryStore \<Rightarrow> string list \<Rightarrow> string + BrewQuery \<Rightarrow> panic + Brew ListResponse response" where
  "BrewHandler_List s ks bound =
     (case bound of
        Inl err \<Rightarrow> Inr (validation_error err)
      | Inr query0 \<Rightarrow>
          let query = set_defaults query0
          in case ListBrews s ks query of
               Inl p \<Rightarrow> Inl p
             | Inr (brews', tot) \<Rightarrow> list_response brews' (Page query) (Limit query) tot)"

definition BrewHandler_ListByTeapot ::
  "(string \<Rightarrow> bool) \<Rightarrow> MemoryStore \<Rightarrow> string list \<Rightarrow> string \<Rightarrow> string + PaginationQuery \<Rightarrow>
     panic + Brew ListResponse response" where
  "BrewHandler_ListByTeapot uuid_Parse s ks teapotID bound =
     (if \<not> uuid_Parse teapotID then Inr (validation_error ''Invalid teapot ID format'')
      else if \<not> snd (GetTeapot s teapotID) then Inr (not_found ''Teapot not found'')
      else case bound of
        Inl err \<Rightarrow> Inr (validation_error err)
      | Inr query0 \<Rightarrow>
          let query = set_defaults query0
          in case ListBrewsByTeapot s ks teapotID (Page query) (Limit query) of
               Inl p \<Rightarrow> Inl p
             | Inr (brews', tot) \<Rightarrow> list_response brews' (Page query) (Limit query) tot)"

definition BrewHandler_ListSteeps ::
  "(string \<Rightarrow> bool) \<Rightarrow> MemoryStore \<Rightarrow> string list \<Rightarrow> string \<Rightarrow> string + PaginationQuery \<Rightarrow>
     panic + Steep ListResponse response" where
  "BrewHandler_ListSteeps uuid_Parse s ks brewID bound =
     (if \<not> uuid_Parse brewID then Inr (validation_error ''Invalid brew ID format'')
      else if \<not> snd (GetBrew s brewID) then Inr (not_found ''Brew not found'')
      else case bound of
        Inl err \<Rightarrow> Inr (validation_error err)
      | Inr query0 \<Rightarrow>
          let query = set_defaults query0
          in case ListSteepsByBrew s ks brewID (Page query) (Limit query) of
               Inl p \<Rightarrow> Inl p
             | Inr (steeps', tot) \<Rightarrow> list_response steeps' (Page query) (Limit query) tot)"

subsection \<open>Creating a brew and a steep\<close>

definition BrewHandler_Create ::
  "MemoryStore \<Rightarrow> string + CreateBrewRequest \<Rightarrow> Time \<Rightarrow> string \<Rightarrow> Brew response \<times> MemoryStore" where
  "BrewHandler_Create s body now new_id =
     (case body of
        Inl err \<Rightarrow> (validation_error err, s)
      | Inr req \<Rightarrow>
          if \<not> snd (GetTeapot s (cb_TeapotID req)) then (validation_error ''Teapot not found'', s)
          else let (tea, found) = GetTea s (cb_TeaID req)
               in if \<not> found then (validation_error ''Tea not found'', s)
                  else let waterTemp = (case cb_WaterTempCelsius req of
                                          None \<Rightarrow> tea_SteepTempCelsius tea
                                        | Some w \<Rightarrow> w);
                           brew = \<lparr>brew_ID = new_id, brew_TeapotID = cb_TeapotID req,
                                    brew_TeaID = cb_TeaID req, brew_Status = BrewPreparing,
                                    brew_WaterTempCelsius = waterTemp, brew_Notes = cb_Notes req,
                                    brew_StartedAt = now, brew_CompletedAt = None,
                                    brew_CreatedAt = now, brew_UpdatedAt = now\<rparr>
                       in (JSON StatusCreated brew, CreateBrew s brew))"

definition BrewHandler_CreateSteep ::
  "(string \<Rightarrow> bool) \<Rightarrow> MemoryStore \<Rightarrow> string list \<Rightarrow> string \<Rightarrow> string + CreateSteepRequest \<Rightarrow>
     Time \<Rightarrow> string \<Rightarrow> Steep response \<times> MemoryStore" where
  "BrewHandler_CreateSteep uuid_Parse s ks brewID body now new_id =
     (if \<not> uuid_Parse brewID then (validation_error ''Invalid brew ID format'', s)
      else if \<not> snd (GetBrew s brewID) then (not_found ''Brew not found'', s)
      else case body of
        Inl err \<Rightarrow> (validation_error err, s)
      | Inr req \<Rightarrow>
          let steepNumber = CountSteepsByBrew s ks brewID + 1;
              steep = \<lparr>steep_ID = new_id, steep_BrewID = brewID, steep_SteepNumber = steepNumber,
                        steep_DurationSeconds = cs_DurationSeconds req, steep_Rating = cs_Rating req,
                        steep_Notes = cs_Notes req, steep_CreatedAt = now\<rparr>
          in (JSON StatusCreated steep, CreateSteep s steep))"

subsection \<open>Updating\<close>

definition TeapotHandler_Patch ::
  "(string \<Rightarrow> bool) \<Rightarrow> MemoryStore \<Rightarrow> string \<Rightarrow> string + PatchTeapotRequest \<Rightarrow> Time \<Rightarrow>
     Teapot response \<times> MemoryStore" where
  "TeapotHandler_Patch uuid_Parse s id0 body now =
     (if \<not> uuid_Parse id0 then (validation_error ''Invalid teapot ID format'', s)
      else let (existing, found) = GetTeapot s id0
           in if \<not> found then (not_found ''Teapot not found'', s)
              else case body of
                Inl err \<Rightarrow> (validation_error err, s)
              | Inr req \<Rightarrow>
                  let existing = (case ptp_Name req of None \<Rightarrow> existing
                                  | Some v \<Rightarrow> existing\<lparr>tp_Name := v\<rparr>);
                      existing = (case ptp_Material req of None \<Rightarrow> existing
                                  | Some v \<Rightarrow> existing\<lparr>tp_Material := v\<rparr>);
                      existing = (case ptp_CapacityMl req of None \<Rightarrow> existing
                                  | Some v \<Rightarrow> existing\<lparr>tp_CapacityMl := v\<rparr>);
                      existing = (case ptp_Style req of None \<Rightarrow> existing
                                  | Some v \<Rightarrow> existing\<lparr>tp_Style := v\<rparr>);
                      existing = (if ptp_Description req \<noteq> None
                                  then existing\<lparr>tp_Description := ptp_Description req\<rparr>
                                  else existing);
                      existing = existing\<lparr>tp_UpdatedAt := now\<rparr>
                  in (JSON StatusOK existing, UpdateTeapot s existing))"

definition TeaHandler_Update ::
  "(string \<Rightarrow> bool) \<Rightarrow> MemoryStore \<Rightarrow> string \<Rightarrow> string + UpdateTeaRequest \<Rightarrow> Time \<Rightarrow>
     Tea response \<times> MemoryStore" where
  "TeaHandler_Update uuid_Parse s id0 body now =
     (if \<not> uuid_Parse id0 then (validation_error ''Invalid tea ID format'', s)
      else let (existing, found) = GetTea s id0
           in if \<not> found then (not_found ''Tea not found'', s)
              else case body of
                Inl err \<Rightarrow> (validation_error err, s)
              | Inr req \<Rightarrow>
                  let tea = \<lparr>tea_ID = id0, tea_Name = ut_Name req, tea_Type = ut_Type req,
                              tea_Origin = ut_Origin req, tea_CaffeineLevel = ut_CaffeineLevel req,
                              tea_SteepTempCelsius = ut_SteepTempCelsius req,
                              tea_SteepTimeSeconds = ut_SteepTimeSeconds req,
                              tea_Description = ut_Description req,
                              tea_CreatedAt = tea_CreatedAt existing, tea_UpdatedAt = now\<rparr>
                  in (JSON StatusOK tea, UpdateTea s tea))"

definition TeaHandler_Patch ::
  "(string \<Rightarrow> bool) \<Rightarrow> MemoryStore \<Rightarrow> string \<Rightarrow> string + PatchTeaRequest \<Rightarrow> Time \<Rightarrow>
     Tea response \<times> MemoryStore" where
  "TeaHandler_Patch uuid_Parse s id0 body now =
     (if \<not> uuid_Parse id0 then (validation_error ''Invalid tea ID format'', s)
      else let (existing, found) = GetTea s id0
           in if \<not> found then (not_found ''Tea not found'', s)
              else case body of
                Inl err \<Rightarrow> (validation_error err, s)
              | Inr req \<Rightarrow>
                  let existing = (case ptea_Name req of None \<Rightarrow> existing
                                  | Some v \<Rightarrow> existing\<lparr>tea_Name := v\<rparr>);
                      existing = (case ptea_Type req of None \<Rightarrow> existing
                                  | Some v \<Rightarrow> existing\<lparr>tea_Type := v\<rparr>);
                      existing = (if ptea_Origin req \<noteq> None
                                  then existing\<lparr>tea_Origin := ptea_Origin req\<rparr>
                                  else existing);
                      existing = (case ptea_CaffeineLevel req of None \<Rightarrow> existing
                                  | Some v \<Rightarrow> existing\<lparr>tea_CaffeineLevel := v\<rparr>);
                      existing = (case ptea_SteepTempCelsius req of None \<Rightarrow> existing
                                  | Some v \<Rightarrow> existing\<lparr>tea_SteepTempCelsius := v\<rparr>);
                      existing = (case ptea_SteepTimeSeconds req of None \<Rightarrow> existing
                                  | Some v \<Rightarrow> existing\<lparr>tea_SteepTimeSeconds := v\<rparr>);
                      existing = (if ptea_Description req \<noteq> None
                                  then existing\<lparr>tea_Description := ptea_Description req\<rparr>
                                  else existing);
                      existing = existing\<lparr>tea_UpdatedAt := now\<rparr>
                  in (JSON StatusOK existing, UpdateTea s existing))"

definition BrewHandler_Patch ::
  "(string \<Rightarrow> bool) \<Rightarrow> MemoryStore \<Rightarrow> string \<Rightarrow> string + PatchBrewRequest \<Rightarrow> Time \<Rightarrow>
     Brew response \<times> MemoryStore" where
  "BrewHandler_Patch uuid_Parse s id0 body now =
     (if \<not> uuid_Parse id0 then (validation_error ''Invalid brew ID format'', s)
      else let (existing, found) = GetBrew s id0
           in if \<not> found then (not_found ''Brew not found'', s)
              else case body of
                Inl err \<Rightarrow> (validation_error err, s)
              | Inr req \<Rightarrow>
                  let existing = (case pb_Status req of None \<Rightarrow> existing
                                  | Some v \<Rightarrow> existing\<lparr>brew_Status := v\<rparr>);
                      existing = (if pb_Notes req \<noteq> None
                                  then existing\<lparr>brew_Notes := pb_Notes req\<rparr>
                                  else existing);
                      existing = (if pb_CompletedAt req \<noteq> None
                                  then existing\<lparr>brew_CompletedAt := pb_CompletedAt req\<rparr>
                                  else existing);
                      existing = existing\<lparr>brew_UpdatedAt := now\<rparr>
                  in (JSON StatusOK existing, UpdateBrew s existing))"

section \<open>The properties, in the words of the specification\<close>

text \<open>
  Follows the spec's words (4.1, step 4), over the integers: the window
  \<open>[(page-1)*limit, (page-1)*limit + limit)\<close> of a list; empty when its start is at or
  beyond the length, its end clipped to the length otherwise.
\<close>

definition spec_window :: "'a list \<Rightarrow> int \<Rightarrow> int \<Rightarrow> 'a list" where
  "spec_window xs page limit =
     (let tot = int (length xs); start = (page - 1) * limit; stop = start + limit
      in if tot \<le> start then []
         else take (nat (min stop tot) - nat start) (drop (nat start) xs))"

text \<open>
  \<open>(page-1)*limit + limit\<close> is \<open>page*limit\<close>: the product fits a signed 64-bit word.
  For a non-positive page, \<open>(page-1)*limit\<close> is the smallest value computed.
\<close>

definition no_overflow :: "go_int \<Rightarrow> go_int \<Rightarrow> bool" where
  "no_overflow page limit \<longleftrightarrow> sint page * sint limit < 2 ^ 63"

definition no_underflow :: "go_int \<Rightarrow> go_int \<Rightarrow> bool" where
  "no_underflow page limit \<longleftrightarrow> - (2 ^ 63) \<le> (sint page - 1) * sint limit"

text \<open>
  A list operation returns the window of \<open>xs\<close> and the true total, the length of \<open>xs\<close>.
\<close>

definition returns_window :: "panic + ('a list \<times> go_int) \<Rightarrow> 'a list \<Rightarrow> go_int \<Rightarrow> go_int \<Rightarrow> bool" where
  "returns_window r xs page limit \<longleftrightarrow>
     r = Inr (spec_window xs (sint page) (sint limit), len xs) \<and> sint (len xs) = int (length xs)"

text \<open>
  A list operation returns, and on the branch that slices (\<open>start < total\<close>) the bounds
  of the slice expression are \<open>0 \<le> start \<le> end \<le> len(filtered)\<close>.
\<close>

definition in_bounds :: "panic + ('a list \<times> go_int) \<Rightarrow> 'a list \<Rightarrow> go_int \<Rightarrow> go_int \<Rightarrow> bool" where
  "in_bounds r filtered page limit \<longleftrightarrow>
     (\<exists>v. r = Inr v) \<and>
     (win_start page limit <s len filtered \<longrightarrow>
        0 \<le>s win_start page limit \<and>
        win_start page limit \<le>s win_end (len filtered) page limit \<and>
        win_end (len filtered) page limit \<le>s len filtered)"

text \<open>The start index is negative and the slice expression panics.\<close>

definition out_of_bounds :: "panic + ('a list \<times> go_int) \<Rightarrow> go_int \<Rightarrow> go_int \<Rightarrow> bool" where
  "out_of_bounds r page limit \<longleftrightarrow>
     win_start page limit <s 0 \<and> r = Inl SliceBoundsOutOfRange"





text \<open>
  The list \<open>srt\<close> holds the records of \<open>filtered\<close>, each as often as \<open>filtered\<close> does,
  with every record \<open>before\<close> all later ones.
\<close>

definition sorted_version :: "('a \<Rightarrow> 'a \<Rightarrow> bool) \<Rightarrow> 'a list \<Rightarrow> 'a list \<Rightarrow> bool" where
  "sorted_version before filtered srt \<longleftrightarrow>
     mset srt = mset filtered \<and> sorted_wrt before srt"

text \<open>
  Whenever a list operation returns, its page is a run of consecutive records of \<open>srt\<close>
  and each record of the page stands \<open>before\<close> all later ones.
\<close>

definition page_sorted ::
  "('a \<Rightarrow> 'a \<Rightarrow> bool) \<Rightarrow> 'a list \<Rightarrow> panic + ('a list \<times> go_int) \<Rightarrow> bool" where
  "page_sorted before srt r \<longleftrightarrow>
     (\<forall>xs n. r = Inr (xs, n) \<longrightarrow>
        sorted_wrt before xs \<and> (\<exists>i j. xs = take i (drop j srt)))"



text \<open>The number of steeps the store holds for a brew.\<close>

definition steeps_of :: "MemoryStore \<Rightarrow> string \<Rightarrow> nat" where
  "steeps_of s brewID = card {k \<in> dom (steeps s). steep_BrewID (the (steeps s k)) = brewID}"

text \<open>The \<open>steepNumber\<close> of the steep a response reports as created.\<close>

definition created_SteepNumber :: "Steep response \<times> MemoryStore \<Rightarrow> go_int option" where
  "created_SteepNumber r =
     (case fst r of
        JSON st steep \<Rightarrow> if st = StatusCreated then Some (steep_SteepNumber steep) else None
      | JSONError st e \<Rightarrow> None
      | Status st \<Rightarrow> None)"

text \<open>
  Follows the spec's words (3, Lifecycle; 8): a patch gives exactly the supplied fields
  their supplied values, every omitted field keeps its value, the identifier and
  \<open>createdAt\<close> stay, and \<open>updatedAt\<close> is the time of the patch.
\<close>

definition patched_Teapot :: "Teapot \<Rightarrow> PatchTeapotRequest \<Rightarrow> Time \<Rightarrow> Teapot" where
  "patched_Teapot old req now =
     \<lparr>tp_ID = tp_ID old,
      tp_Name = (case ptp_Name req of None \<Rightarrow> tp_Name old | Some v \<Rightarrow> v),
      tp_Material = (case ptp_Material req of None \<Rightarrow> tp_Material old | Some v \<Rightarrow> v),
      tp_CapacityMl = (case ptp_CapacityMl req of None \<Rightarrow> tp_CapacityMl old | Some v \<Rightarrow> v),
      tp_Style = (case ptp_Style req of None \<Rightarrow> tp_Style old | Some v \<Rightarrow> v),
      tp_Description = (case ptp_Description req of None \<Rightarrow> tp_Description old | Some v \<Rightarrow> Some v),
      tp_CreatedAt = tp_CreatedAt old,
      tp_UpdatedAt = now\<rparr>"

definition patched_Tea :: "Tea \<Rightarrow> PatchTeaRequest \<Rightarrow> Time \<Rightarrow> Tea" where
  "patched_Tea old req now =
     \<lparr>tea_ID = tea_ID old,
      tea_Name = (case ptea_Name req of None \<Rightarrow> tea_Name old | Some v \<Rightarrow> v),
      tea_Type = (case ptea_Type req of None \<Rightarrow> tea_Type old | Some v \<Rightarrow> v),
      tea_Origin = (case ptea_Origin req of None \<Rightarrow> tea_Origin old | Some v \<Rightarrow> Some v),
      tea_CaffeineLevel =
        (case ptea_CaffeineLevel req of None \<Rightarrow> tea_CaffeineLevel old | Some v \<Rightarrow> v),
      tea_SteepTempCelsius =
        (case ptea_SteepTempCelsius req of None \<Rightarrow> tea_SteepTempCelsius old | Some v \<Rightarrow> v),
      tea_SteepTimeSeconds =
        (case ptea_SteepTimeSeconds req of None \<Rightarrow> tea_SteepTimeSeconds old | Some v \<Rightarrow> v),
      tea_Description =
        (case ptea_Description req of None \<Rightarrow> tea_Description old | Some v \<Rightarrow> Some v),
      tea_CreatedAt = tea_CreatedAt old,
      tea_UpdatedAt = now\<rparr>"

definition patched_Brew :: "Brew \<Rightarrow> PatchBrewRequest \<Rightarrow> Time \<Rightarrow> Brew" where
  "patched_Brew old req now =
     \<lparr>brew_ID = brew_ID old,
      brew_TeapotID = brew_TeapotID old,
      brew_TeaID = brew_TeaID old,
      brew_Status = (case pb_Status req of None \<Rightarrow> brew_Status old | Some v \<Rightarrow> v),
      brew_WaterTempCelsius = brew_WaterTempCelsius old,
      brew_Notes = (case pb_Notes req of None \<Rightarrow> brew_Notes old | Some v \<Rightarrow> Some v),
      brew_StartedAt = brew_StartedAt old,
      brew_CompletedAt =
        (case pb_CompletedAt req of None \<Rightarrow> brew_CompletedAt old | Some v \<Rightarrow> Some v),
      brew_CreatedAt = brew_CreatedAt old,
      brew_UpdatedAt = now\<rparr>"

text \<open>
  Every entry of a table is stored under the identifier of its record: the store writes
  \<open>s.teapots[t.ID] = t\<close> and nothing else.
\<close>

definition keyed_by_ID :: "MemoryStore \<Rightarrow> bool" where
  "keyed_by_ID s \<longleftrightarrow>
     (\<forall>k t. teapots s k = Some t \<longrightarrow> tp_ID t = k) \<and>
     (\<forall>k t. teas s k = Some t \<longrightarrow> tea_ID t = k) \<and>
     (\<forall>k b. brews s k = Some b \<longrightarrow> brew_ID b = k) \<and>
     (\<forall>k st. steeps s k = Some st \<longrightarrow> steep_ID st = k)"

section \<open>An example store\<close>

text \<open>
  Three teapots, a tea, two brews and the two steeps of the first brew, for the concrete
  instances below.
\<close>

definition ex_teapot :: "string \<Rightarrow> TeapotMaterial \<Rightarrow> TeapotStyle \<Rightarrow> Time \<Rightarrow> Teapot" where
  "ex_teapot i m st c = \<lparr>tp_ID = i, tp_Name = ''My Kyusu'', tp_Material = m, tp_CapacityMl = 350,
     tp_Style = st, tp_Description = None, tp_CreatedAt = c, tp_UpdatedAt = c\<rparr>"

definition ex_tea :: Tea where
  "ex_tea = \<lparr>tea_ID = ''t1'', tea_Name = ''Dragon Well'', tea_Type = ''green'', tea_Origin = None,
     tea_CaffeineLevel = ''medium'', tea_SteepTempCelsius = 80, tea_SteepTimeSeconds = 120,
     tea_Description = None, tea_CreatedAt = 5, tea_UpdatedAt = 5\<rparr>"

definition ex_brew :: "string \<Rightarrow> string \<Rightarrow> BrewStatus \<Rightarrow> Time \<Rightarrow> Brew" where
  "ex_brew i tp st c = \<lparr>brew_ID = i, brew_TeapotID = tp, brew_TeaID = ''t1'', brew_Status = st,
     brew_WaterTempCelsius = 80, brew_Notes = None, brew_StartedAt = c, brew_CompletedAt = None,
     brew_CreatedAt = c, brew_UpdatedAt = c\<rparr>"

definition ex_steep :: "string \<Rightarrow> string \<Rightarrow> go_int \<Rightarrow> Time \<Rightarrow> Steep" where
  "ex_steep i b n c = \<lparr>steep_ID = i, steep_BrewID = b, steep_SteepNumber = n,
     steep_DurationSeconds = 30, steep_Rating = None, steep_Notes = None, steep_CreatedAt = c\<rparr>"

definition ex_store :: MemoryStore where
  "ex_store = \<lparr>
     teapots = [''a'' \<mapsto> ex_teapot ''a'' ''clay'' ''kyusu'' 10,
                ''b'' \<mapsto> ex_teapot ''b'' ''glass'' ''kyusu'' 30,
                ''c'' \<mapsto> ex_teapot ''c'' ''clay'' ''english'' 20],
     teas = [''t1'' \<mapsto> ex_tea],
     brews = [''b1'' \<mapsto> ex_brew ''b1'' ''a'' ''preparing'' 40,
              ''b2'' \<mapsto> ex_brew ''b2'' ''b'' ''served'' 50],
     steeps = [''s1'' \<mapsto> ex_steep ''s1'' ''b1'' 1 41,
               ''s2'' \<mapsto> ex_steep ''s2'' ''b1'' 2 42]\<rparr>"

definition ex_tq :: "go_int \<Rightarrow> go_int \<Rightarrow> TeapotMaterial option \<Rightarrow> TeapotQuery" where
  "ex_tq page limit m = \<lparr>Page = page, Limit = limit, q_Material = m, q_Style = None\<rparr>"

definition ex_eq :: "go_int \<Rightarrow> go_int \<Rightarrow> TeaQuery" where
  "ex_eq page limit = \<lparr>Page = page, Limit = limit, q_Type = None, q_CaffeineLevel = None\<rparr>"

definition ex_bq :: "go_int \<Rightarrow> go_int \<Rightarrow> BrewQuery" where
  "ex_bq page limit = \<lparr>Page = page, Limit = limit, q_Status = None, q_TeapotID = None,
     q_TeaID = None\<rparr>"

definition ex_steep_req :: CreateSteepRequest where
  "ex_steep_req = \<lparr>cs_DurationSeconds = 30, cs_Rating = Some 4, cs_Notes = None\<rparr>"

definition ex_r1 :: "Steep response \<times> MemoryStore" where
  "ex_r1 = BrewHandler_CreateSteep (\<lambda>i. True) ex_store [''s2'', ''s1''] ''b2'' (Inr ex_steep_req)
     60 ''s3''"

definition ex_r2 :: "Steep response \<times> MemoryStore" where
  "ex_r2 = BrewHandler_CreateSteep (\<lambda>i. True) (snd ex_r1) [''s3'', ''s1'', ''s2''] ''b2''
     (Inr ex_steep_req) 61 ''s4''"

definition ex_r3 :: "Steep response \<times> MemoryStore" where
  "ex_r3 = BrewHandler_CreateSteep (\<lambda>i. True) (snd ex_r2) [''s1'', ''s4'', ''s2'', ''s3''] ''b2''
     (Inr ex_steep_req) 62 ''s5''"

definition ex_brew_req :: "string \<Rightarrow> string \<Rightarrow> CreateBrewRequest" where
  "ex_brew_req tp te = \<lparr>cb_TeapotID = tp, cb_TeaID = te, cb_WaterTempCelsius = None,
     cb_Notes = None\<rparr>"

definition ex_patch :: PatchTeapotRequest where
  "ex_patch = \<lparr>ptp_Name = Some ''Renamed'', ptp_Material = None, ptp_CapacityMl = Some 400,
     ptp_Style = None, ptp_Description = None\<rparr>"

section \<open>Arithmetic of signed 64-bit words\<close>


lemma sint_range: "- (2 ^ 63) \<le> sint (w :: go_int) \<and> sint w < 2 ^ 63"
  using sint_ge [of w] sint_lt [of w] by simp

lemma sint_len: "length xs < 2 ^ 63 \<Longrightarrow> sint (len xs) = int (length xs)"
  unfolding len_def by (simp add: signed_of_nat signed_take_bit_int_eq_self)

lemma sint_minus_fit:
  "- (2 ^ 63) \<le> sint a - sint b \<Longrightarrow> sint a - sint b < 2 ^ 63 \<Longrightarrow> sint (a - b :: go_int) = sint a - sint b"
  by (simp add: sint_word_diff signed_take_bit_int_eq_self)

lemma sint_times_fit:
  "- (2 ^ 63) \<le> sint a * sint b \<Longrightarrow> sint a * sint b < 2 ^ 63 \<Longrightarrow> sint (a * b :: go_int) = sint a * sint b"
  by (simp add: sint_word_mult signed_take_bit_int_eq_self)

lemma sint_plus_fit:
  "- (2 ^ 63) \<le> sint a + sint b \<Longrightarrow> sint a + sint b < 2 ^ 63 \<Longrightarrow> sint (a + b :: go_int) = sint a + sint b"
  by (simp add: sint_word_add signed_take_bit_int_eq_self)

section \<open>The window of a page\<close>

lemma win_bounds:
  fixes page limit :: go_int
  assumes p: "1 \<le>s page" and l: "0 \<le>s limit"
    and fit: "sint page * sint limit < 2 ^ 63"
  shows "sint (win_start page limit) = (sint page - 1) * sint limit"
    and "sint (win_start page limit + limit) = sint page * sint limit"
proof -
  let ?P = "sint page" and ?L = "sint limit"
  have P1: "1 \<le> ?P" using p by (simp add: word_sle_eq)
  have L0: "0 \<le> ?L" using l by (simp add: word_sle_eq)
  have pm: "sint (page - 1) = ?P - 1"
    using P1 sint_range [of page] by (simp add: sint_minus_fit)
  have ge0: "0 \<le> (?P - 1) * ?L" using P1 L0 by simp
  have "(?P - 1) * ?L \<le> ?P * ?L" using L0 by (simp add: mult_right_mono)
  with fit have lt: "(?P - 1) * ?L < 2 ^ 63" by linarith
  show st: "sint (win_start page limit) = (?P - 1) * ?L"
    unfolding win_start_def using ge0 lt pm by (simp add: sint_times_fit)
  have sum: "(?P - 1) * ?L + ?L = ?P * ?L" by (simp add: algebra_simps)
  show "sint (win_start page limit + limit) = ?P * ?L"
    using st sum fit ge0 L0 by (simp add: sint_plus_fit)
qed

lemma window_exact:
  fixes page limit :: go_int
  assumes p: "1 \<le>s page" and l: "0 \<le>s limit"
    and fit: "sint page * sint limit < 2 ^ 63"
    and n: "length xs < 2 ^ 63"
  shows "window xs page limit =
     Inr (take (nat (sint limit)) (drop (nat ((sint page - 1) * sint limit)) xs), len xs)"
proof -
  let ?P = "sint page" and ?L = "sint limit" and ?n = "int (length xs)"
  let ?s = "(?P - 1) * ?L"
  have P1: "1 \<le> ?P" using p by (simp add: word_sle_eq)
  have L0: "0 \<le> ?L" using l by (simp add: word_sle_eq)
  have ge0: "0 \<le> ?s" using P1 L0 by simp
  have st: "sint (win_start page limit) = ?s" by (rule win_bounds(1) [OF p l fit])
  have en: "sint (win_start page limit + limit) = ?P * ?L" by (rule win_bounds(2) [OF p l fit])
  have sum: "?P * ?L = ?s + ?L" by (simp add: algebra_simps)
  have tot: "sint (len xs) = ?n" by (rule sint_len [OF n])
  show ?thesis
  proof (cases "?n \<le> ?s")
    case True
    then have "length xs \<le> nat ?s" by linarith
    then have "drop (nat ?s) xs = []" by simp
    with True show ?thesis by (simp add: window_def Let_def word_sle_eq st tot)
  next
    case False
    then have slt: "nat ?s < length xs" using ge0 by linarith
    show ?thesis
    proof (cases "?n < ?P * ?L")
      case True
      have we: "win_end (len xs) page limit = len xs"
        using True by (simp add: win_end_def Let_def word_sless_alt en tot)
      have "length xs - nat ?s \<le> nat ?L" using True sum ge0 L0 by linarith
      then have tk: "take (nat ?L) (drop (nat ?s) xs) = drop (nat ?s) xs" by simp
      have "slice_expr xs (win_start page limit) (len xs) = Inr (drop (nat ?s) xs)"
        using False ge0 by (simp add: slice_expr_def word_sle_eq st tot)
      with False we tk show ?thesis by (simp add: window_def Let_def word_sle_eq st tot)
    next
      case nlt: False
      have we: "win_end (len xs) page limit = win_start page limit + limit"
        using nlt by (simp add: win_end_def Let_def word_sless_alt en tot)
      have d: "nat (?P * ?L) - nat ?s = nat ?L" using sum ge0 L0 by (simp add: nat_add_distrib)
      have "slice_expr xs (win_start page limit) (win_start page limit + limit)
            = Inr (take (nat ?L) (drop (nat ?s) xs))"
        using nlt ge0 L0 sum d by (simp add: slice_expr_def word_sle_eq st en tot)
      with False we show ?thesis by (simp add: window_def Let_def word_sle_eq st tot)
    qed
  qed
qed

section \<open>Sorting\<close>

lemma set_insert_by: "set (insert_by lt x ys) = insert x (set ys)"
  by (induction ys) auto

lemma length_insert_by: "length (insert_by lt x ys) = Suc (length ys)"
  by (induction ys) auto

lemma mset_insert_by: "mset (insert_by lt x ys) = add_mset x (mset ys)"
  by (induction ys) auto

lemma mset_sort_Slice: "mset (sort_Slice lt xs) = mset xs"
  unfolding sort_Slice_def by (induction xs) (auto simp: mset_insert_by)


lemma length_sort_Slice: "length (sort_Slice lt xs) = length xs"
  unfolding sort_Slice_def by (induction xs) (auto simp: length_insert_by)

lemma sorted_insert_by:
  assumes asym: "\<And>a b. lt a b \<Longrightarrow> \<not> lt b a"
    and trans: "\<And>a b c. \<not> lt b a \<Longrightarrow> \<not> lt c b \<Longrightarrow> \<not> lt c a"
  shows "sorted_wrt (\<lambda>a b. \<not> lt b a) ys \<Longrightarrow> sorted_wrt (\<lambda>a b. \<not> lt b a) (insert_by lt x ys)"
proof (induction ys)
  case Nil
  then show ?case by simp
next
  case (Cons y ys)
  show ?case
  proof (cases "lt y x")
    case True
    then have "\<not> lt x y" by (rule asym)
    with Cons True show ?thesis by (auto simp: set_insert_by)
  next
    case False
    have "\<not> lt z x" if "z \<in> set ys" for z
    proof -
      from Cons.prems that have "\<not> lt z y" by simp
      with False show ?thesis by (rule trans)
    qed
    with Cons.prems False show ?thesis by simp
  qed
qed

lemma sorted_sort_Slice:
  assumes asym: "\<And>a b. lt a b \<Longrightarrow> \<not> lt b a"
    and trans: "\<And>a b c. \<not> lt b a \<Longrightarrow> \<not> lt c b \<Longrightarrow> \<not> lt c a"
  shows "sorted_wrt (\<lambda>a b. \<not> lt b a) (sort_Slice lt xs)"
  unfolding sort_Slice_def
  by (induction xs) (auto intro: sorted_insert_by [OF asym trans])

lemma sorted_sort_Slice_desc:
  fixes key :: "'a \<Rightarrow> int"
  shows "sorted_wrt (\<lambda>a b. key b \<le> key a) (sort_Slice (\<lambda>a b. key b < key a) xs)"
proof -
  have "sorted_wrt (\<lambda>a b. \<not> key a < key b) (sort_Slice (\<lambda>a b. key b < key a) xs)"
    by (rule sorted_sort_Slice) auto
  then show ?thesis by (simp add: not_less)
qed

lemma sorted_sort_Slice_asc:
  fixes key :: "'a \<Rightarrow> go_int"
  shows "sorted_wrt (\<lambda>a b. key a \<le>s key b) (sort_Slice (\<lambda>a b. key a <s key b) xs)"
proof -
  have "sorted_wrt (\<lambda>a b. \<not> key b <s key a) (sort_Slice (\<lambda>a b. key a <s key b) xs)"
    by (rule sorted_sort_Slice) (auto simp: word_sless_alt)
  then show ?thesis by (simp add: word_sless_alt word_sle_eq not_less)
qed

subsection \<open>Range loops\<close>

lemma range_values_map: "set ks \<subseteq> dom m \<Longrightarrow> range_values m ks = map (\<lambda>k. the (m k)) ks"
  unfolding range_values_def by (induction ks) (auto simp: List.map_filter_simps)

lemma length_range_values_le: "length (range_values m ks) \<le> length ks"
  unfolding range_values_def by (simp add: List.map_filter_def)


lemma count_range_values:
  assumes "visits m ks"
  shows "length (filter P (range_values m ks)) = card {k \<in> dom m. P (the (m k))}"
proof -
  from assms have d: "distinct ks" and s: "set ks = dom m" by (auto simp: visits_def)
  have "length (filter P (range_values m ks)) = length (filter (\<lambda>k. P (the (m k))) ks)"
    using s by (simp add: range_values_map filter_map o_def)
  also have "\<dots> = card (set (filter (\<lambda>k. P (the (m k))) ks))"
    using d distinct_card [of "filter (\<lambda>k. P (the (m k))) ks"] by simp
  also have "set (filter (\<lambda>k. P (the (m k))) ks) = {k \<in> dom m. P (the (m k))}"
    using s by auto
  finally show ?thesis .
qed

subsection \<open>What the window returns, and when it panics\<close>

lemma window_sub:
  assumes "window xs page limit = Inr (ys, t)"
  shows "t = len xs \<and> (\<exists>i j. ys = take i (drop j xs))"
proof (cases "len xs \<le>s win_start page limit")
  case True
  with assms have "ys = [] \<and> t = len xs" by (simp add: window_def Let_def)
  then have "ys = take 0 (drop 0 xs) \<and> t = len xs" by simp
  then show ?thesis by blast
next
  case False
  with assms show ?thesis
    by (auto simp: window_def Let_def slice_expr_def split: if_splits sum.splits)
qed

lemma window_panics:
  fixes page limit :: go_int
  assumes p: "page \<le>s 0" and l: "1 \<le>s limit"
    and fit: "- (2 ^ 63) \<le> (sint page - 1) * sint limit"
    and ne: "xs \<noteq> []" and n: "length xs < 2 ^ 63"
  shows "win_start page limit <s 0" and "window xs page limit = Inl SliceBoundsOutOfRange"
proof -
  let ?P = "sint page" and ?L = "sint limit"
  have P0: "?P \<le> 0" using p by (simp add: word_sle_eq)
  have L1: "1 \<le> ?L" using l by (simp add: word_sle_eq)
  have "(?P - 1) * ?L \<le> (?P - 1) * 1" using P0 L1 by (intro mult_left_mono_neg) auto
  then have le: "(?P - 1) * ?L \<le> ?P - 1" by simp
  have pm: "sint (page - 1) = ?P - 1"
    using le fit P0 by (simp add: sint_minus_fit)
  have neg: "(?P - 1) * ?L < 0" using le P0 by linarith
  have st: "sint (win_start page limit) = (?P - 1) * ?L"
    unfolding win_start_def using fit neg pm by (simp add: sint_times_fit)
  show s0: "win_start page limit <s 0" using st neg by (simp add: word_sless_alt)
  have tot: "sint (len xs) = int (length xs)" by (rule sint_len [OF n])
  have "\<not> len xs \<le>s win_start page limit" using st neg tot by (simp add: word_sle_eq)
  moreover have "slice_expr xs (win_start page limit) e = Inl SliceBoundsOutOfRange" for e
    using st neg by (simp add: slice_expr_def word_sle_eq)
  ultimately show "window xs page limit = Inl SliceBoundsOutOfRange"
    by (simp add: window_def Let_def)
qed

section \<open>Point lookups\<close>

text \<open>
  C8. For teapots, teas, brews and steeps, \<open>Get\<close> of an identifier right after \<open>Create\<close>
  of a record with that identifier returns the record and \<open>true\<close>; for teapots, teas and
  brews, \<open>Get\<close> right after \<open>Delete\<close> of the identifier returns \<open>false\<close> (the store has
  no operation that deletes a steep).
\<close>

theorem get_after_create_and_delete:
  "GetTeapot (CreateTeapot s tp) (tp_ID tp) = (tp, True) \<and>
   GetTea (CreateTea s tea) (tea_ID tea) = (tea, True) \<and>
   GetBrew (CreateBrew s brew) (brew_ID brew) = (brew, True) \<and>
   GetSteep (CreateSteep s steep) (steep_ID steep) = (steep, True) \<and>
   snd (GetTeapot (snd (DeleteTeapot s k)) k) = False \<and>
   snd (GetTea (snd (DeleteTea s k)) k) = False \<and>
   snd (GetBrew (snd (DeleteBrew s k)) k) = False"
  by (simp add: GetTeapot_def CreateTeapot_def DeleteTeapot_def
      GetTea_def CreateTea_def DeleteTea_def
      GetBrew_def CreateBrew_def DeleteBrew_def
      GetSteep_def CreateSteep_def split: option.split)

section \<open>Evaluating the example\<close>

lemmas ex_defs = ex_store_def ex_teapot_def ex_tea_def ex_brew_def ex_steep_def ex_tq_def
  ex_eq_def ex_bq_def

lemmas list_eval = window_def win_start_def win_end_def slice_expr_def len_def Let_def
  word_sle_eq word_sless_alt range_values_def sort_Slice_def List.map_filter_simps
  ListTeapots_def sorted_Teapots_def filtered_Teapots_def keep_Teapot_def
  ListTeas_def sorted_Teas_def filtered_Teas_def keep_Tea_def
  ListBrews_def sorted_Brews_def filtered_Brews_def keep_Brew_def
  ListBrewsByTeapot_def sorted_BrewsByTeapot_def filtered_BrewsByTeapot_def
  ListSteepsByBrew_def sorted_SteepsByBrew_def filtered_SteepsByBrew_def

lemmas handler_eval = TeapotHandler_List_def set_defaults_def list_response_def totalPages_of_def
  go_div_def StatusOK_def signed_divide_int_def

lemma ex_sorted_Teapots:
  "sorted_Teapots ex_store [''a'', ''b'', ''c''] (ex_tq p l None) =
     [ex_teapot ''b'' ''glass'' ''kyusu'' 30, ex_teapot ''c'' ''clay'' ''english'' 20,
      ex_teapot ''a'' ''clay'' ''kyusu'' 10]"
  by (simp add: list_eval ex_defs)

lemma ex_visits:
  "visits (teapots ex_store) [''a'', ''b'', ''c'']"
  "visits (teas ex_store) [''t1'']"
  "visits (brews ex_store) [''b1'', ''b2'']"
  "visits (steeps ex_store) [''s2'', ''s1'']"
  by (auto simp: visits_def ex_store_def)

lemmas create_eval = BrewHandler_CreateSteep_def BrewHandler_Create_def CountSteepsByBrew_def
  CreateSteep_def CreateBrew_def GetBrew_def GetTea_def GetTeapot_def StatusCreated_def
  range_values_def List.map_filter_simps Let_def

section \<open>Listing\<close>

lemma spec_window_take_drop:
  assumes "1 \<le> page" and "0 \<le> limit"
  shows "spec_window xs page limit = take (nat limit) (drop (nat ((page - 1) * limit)) xs)"
proof -
  let ?s = "(page - 1) * limit"
  have ge0: "0 \<le> ?s" using assms by simp
  show ?thesis
  proof (cases "int (length xs) \<le> ?s")
    case True
    then have "length xs \<le> nat ?s" by linarith
    with True show ?thesis by (simp add: spec_window_def Let_def)
  next
    case False
    show ?thesis
    proof (cases "?s + limit \<le> int (length xs)")
      case True
      then have mn: "min (?s + limit) (int (length xs)) = ?s + limit" by simp
      have "nat (?s + limit) - nat ?s = nat limit"
        using ge0 assms by (simp add: nat_add_distrib)
      with False mn show ?thesis by (simp add: spec_window_def Let_def)
    next
      case gt: False
      then have mn: "min (?s + limit) (int (length xs)) = int (length xs)" by simp
      have "length xs - nat ?s \<le> nat limit" using gt ge0 assms by linarith
      then have "take (nat limit) (drop (nat ?s) xs) = drop (nat ?s) xs" by simp
      with False mn show ?thesis by (simp add: spec_window_def Let_def)
    qed
  qed
qed

lemma window_returns_window:
  assumes "1 \<le>s page" and "1 \<le>s limit" and "no_overflow page limit" and "length xs < 2 ^ 63"
  shows "returns_window (window xs page limit) xs page limit"
proof -
  have l0: "0 \<le>s limit" using assms(2) by (simp add: word_sle_eq)
  have "window xs page limit =
     Inr (take (nat (sint limit)) (drop (nat ((sint page - 1) * sint limit)) xs), len xs)"
    using assms(1) l0 assms(3,4) unfolding no_overflow_def by (rule window_exact)
  moreover have "spec_window xs (sint page) (sint limit) =
      take (nat (sint limit)) (drop (nat ((sint page - 1) * sint limit)) xs)"
    using assms(1) l0 by (intro spec_window_take_drop) (simp_all add: word_sle_eq)
  ultimately show ?thesis using sint_len [OF assms(4)] by (simp add: returns_window_def)
qed

lemma length_filtered_le: "length (filter P (range_values m ks)) \<le> length ks"
  using length_filter_le [of P "range_values m ks"] length_range_values_le [of m ks] by linarith

lemma length_sorted_Teapots: "length (sorted_Teapots s ks q) \<le> length ks"
  by (simp add: sorted_Teapots_def filtered_Teapots_def length_sort_Slice length_filtered_le)
lemma length_sorted_Teas: "length (sorted_Teas s ks q) \<le> length ks"
  by (simp add: sorted_Teas_def filtered_Teas_def length_sort_Slice length_filtered_le)
lemma length_sorted_Brews: "length (sorted_Brews s ks q) \<le> length ks"
  by (simp add: sorted_Brews_def filtered_Brews_def length_sort_Slice length_filtered_le)
lemma length_sorted_BrewsByTeapot: "length (sorted_BrewsByTeapot s ks i) \<le> length ks"
  by (simp add: sorted_BrewsByTeapot_def filtered_BrewsByTeapot_def length_sort_Slice length_filtered_le)
lemma length_sorted_SteepsByBrew: "length (sorted_SteepsByBrew s ks i) \<le> length ks"
  by (simp add: sorted_SteepsByBrew_def filtered_SteepsByBrew_def length_sort_Slice length_filtered_le)

lemma lt_bound: "length xs \<le> length ks \<Longrightarrow> length ks < 2 ^ 63 \<Longrightarrow> length xs < 2 ^ 63"
  by (rule le_less_trans)

text \<open>
  Where no product wraps around, the five list operations return the window of the
  specification: \<open>page \<ge> 1\<close>, \<open>limit \<ge> 1\<close> and \<open>page * limit\<close> within the range of a
  64-bit int are enough for that (they are not necessary).
\<close>

lemma list_window_in_range:
  fixes tq :: TeapotQuery and eq :: TeaQuery and bq :: BrewQuery
  assumes pg: "1 \<le>s page" and lim: "1 \<le>s limit" and fit: "no_overflow page limit"
    and size: "length ks < 2 ^ 63"
    and tq: "Page tq = page \<and> Limit tq = limit"
    and eq: "Page eq = page \<and> Limit eq = limit"
    and bq: "Page bq = page \<and> Limit bq = limit"
  shows "returns_window (ListTeapots s ks tq) (sorted_Teapots s ks tq) page limit \<and>
         returns_window (ListTeas s ks eq) (sorted_Teas s ks eq) page limit \<and>
         returns_window (ListBrews s ks bq) (sorted_Brews s ks bq) page limit \<and>
         returns_window (ListBrewsByTeapot s ks teapotID page limit)
           (sorted_BrewsByTeapot s ks teapotID) page limit \<and>
         returns_window (ListSteepsByBrew s ks brewID page limit)
           (sorted_SteepsByBrew s ks brewID) page limit"
proof -
  note w = window_returns_window [OF pg lim fit]
  have "returns_window (ListTeapots s ks tq) (sorted_Teapots s ks tq) page limit"
    unfolding ListTeapots_def using tq w [OF lt_bound [OF length_sorted_Teapots size]] by simp
  moreover have "returns_window (ListTeas s ks eq) (sorted_Teas s ks eq) page limit"
    unfolding ListTeas_def using eq w [OF lt_bound [OF length_sorted_Teas size]] by simp
  moreover have "returns_window (ListBrews s ks bq) (sorted_Brews s ks bq) page limit"
    unfolding ListBrews_def using bq w [OF lt_bound [OF length_sorted_Brews size]] by simp
  moreover have "returns_window (ListBrewsByTeapot s ks teapotID page limit)
           (sorted_BrewsByTeapot s ks teapotID) page limit"
    unfolding ListBrewsByTeapot_def using w [OF lt_bound [OF length_sorted_BrewsByTeapot size]] by simp
  moreover have "returns_window (ListSteepsByBrew s ks brewID page limit)
           (sorted_SteepsByBrew s ks brewID) page limit"
    unfolding ListSteepsByBrew_def using w [OF lt_bound [OF length_sorted_SteepsByBrew size]] by simp
  ultimately show ?thesis by blast
qed

text \<open>
  C1. The claim asks, for every \<open>page \<ge> 1\<close> and \<open>limit \<ge> 1\<close>, for the window
  \<open>[(page-1)*limit, (page-1)*limit + limit)\<close> of the sorted filtered set, empty when its
  start is at or beyond the total. The code does not deliver it for every such page. The
  request \<open>GET /teapots?page=4611686018427387905&limit=4\<close> passes the binding; on the store
  of three teapots the window of the specification is empty, as it is for page 2, where
  the guard \<open>if start >= total\<close> returns the empty page. At page \<open>2^62 + 1\<close> the product
  \<open>(page-1)*limit\<close> wraps around to 0, the guard does not fire, and store and handler
  return all three teapots.
\<close>

theorem list_window_wraps_at_large_page:
  "binding_PaginationQuery (ex_tq 4611686018427387905 4 None) \<and>
   1 \<le>s (4611686018427387905 :: go_int) \<and> 1 \<le>s (4 :: go_int) \<and>
   spec_window (sorted_Teapots ex_store [''a'', ''b'', ''c''] (ex_tq 4611686018427387905 4 None))
     (sint (4611686018427387905 :: go_int)) (sint (4 :: go_int)) = [] \<and>
   win_start 4611686018427387905 4 = 0 \<and>
   ListTeapots ex_store [''a'', ''b'', ''c''] (ex_tq 4611686018427387905 4 None) =
     Inr ([ex_teapot ''b'' ''glass'' ''kyusu'' 30, ex_teapot ''c'' ''clay'' ''english'' 20,
           ex_teapot ''a'' ''clay'' ''kyusu'' 10], 3) \<and>
   TeapotHandler_List ex_store [''a'', ''b'', ''c''] (Inr (ex_tq 4611686018427387905 4 None)) =
     Inr (JSON 200
       \<lparr>lr_Data = [ex_teapot ''b'' ''glass'' ''kyusu'' 30, ex_teapot ''c'' ''clay'' ''english'' 20,
                   ex_teapot ''a'' ''clay'' ''kyusu'' 10],
        lr_Pagination = \<lparr>pg_Page = 4611686018427387905, pg_Limit = 4, pg_Total = 3,
                          pg_TotalPages = 1\<rparr>\<rparr>) \<and>
   spec_window (sorted_Teapots ex_store [''a'', ''b'', ''c''] (ex_tq 2 4 None))
     (sint (2 :: go_int)) (sint (4 :: go_int)) = [] \<and>
   ListTeapots ex_store [''a'', ''b'', ''c''] (ex_tq 2 4 None) = Inr ([], 3)"
  unfolding ex_sorted_Teapots
  by (simp add: list_eval handler_eval binding_PaginationQuery_def ex_defs spec_window_def)

subsection \<open>Order\<close>

lemma window_page_sorted:
  assumes "sorted_wrt before xs"
  shows "page_sorted before xs (window xs page limit)"
  unfolding page_sorted_def
proof (intro allI impI)
  fix ys n assume "window xs page limit = Inr (ys, n)"
  from window_sub [OF this] obtain i j where ys: "ys = take i (drop j xs)" by blast
  with assms have "sorted_wrt before ys" by (simp add: sorted_wrt_take sorted_wrt_drop)
  with ys show "sorted_wrt before ys \<and> (\<exists>i j. ys = take i (drop j xs))" by blast
qed

lemma sorted_version_desc:
  fixes key :: "'a \<Rightarrow> int"
  shows "sorted_version (\<lambda>a b. key b \<le> key a) xs (sort_Slice (\<lambda>a b. key b < key a) xs)"
  by (simp add: sorted_version_def mset_sort_Slice sorted_sort_Slice_desc)

lemma sorted_version_asc:
  fixes key :: "'a \<Rightarrow> go_int"
  shows "sorted_version (\<lambda>a b. key a \<le>s key b) xs (sort_Slice (\<lambda>a b. key a <s key b) xs)"
  by (simp add: sorted_version_def mset_sort_Slice sorted_sort_Slice_asc)

text \<open>
  C2. What the list operations of teapots, teas and brews (also by teapot) sort is the
  filtered set itself: the sorted list holds exactly the filtered records, each once per
  occurrence, in order of \<open>CreatedAt\<close>, newest first; every page they return is a run of
  consecutive records of that list, so each record's \<open>CreatedAt\<close> is not after that of any
  record before it. The list of the steeps of a brew is the same with \<open>SteepNumber\<close>,
  ascending.
\<close>

theorem list_order:
  "sorted_version (\<lambda>a b. tp_CreatedAt b \<le> tp_CreatedAt a)
     (filtered_Teapots s ks tq) (sorted_Teapots s ks tq) \<and>
   page_sorted (\<lambda>a b. tp_CreatedAt b \<le> tp_CreatedAt a)
     (sorted_Teapots s ks tq) (ListTeapots s ks tq) \<and>
   sorted_version (\<lambda>a b. tea_CreatedAt b \<le> tea_CreatedAt a)
     (filtered_Teas s ks eq) (sorted_Teas s ks eq) \<and>
   page_sorted (\<lambda>a b. tea_CreatedAt b \<le> tea_CreatedAt a)
     (sorted_Teas s ks eq) (ListTeas s ks eq) \<and>
   sorted_version (\<lambda>a b. brew_CreatedAt b \<le> brew_CreatedAt a)
     (filtered_Brews s ks bq) (sorted_Brews s ks bq) \<and>
   page_sorted (\<lambda>a b. brew_CreatedAt b \<le> brew_CreatedAt a)
     (sorted_Brews s ks bq) (ListBrews s ks bq) \<and>
   sorted_version (\<lambda>a b. brew_CreatedAt b \<le> brew_CreatedAt a)
     (filtered_BrewsByTeapot s ks teapotID) (sorted_BrewsByTeapot s ks teapotID) \<and>
   page_sorted (\<lambda>a b. brew_CreatedAt b \<le> brew_CreatedAt a)
     (sorted_BrewsByTeapot s ks teapotID) (ListBrewsByTeapot s ks teapotID page limit) \<and>
   sorted_version (\<lambda>a b. steep_SteepNumber a \<le>s steep_SteepNumber b)
     (filtered_SteepsByBrew s ks brewID) (sorted_SteepsByBrew s ks brewID) \<and>
   page_sorted (\<lambda>a b. steep_SteepNumber a \<le>s steep_SteepNumber b)
     (sorted_SteepsByBrew s ks brewID) (ListSteepsByBrew s ks brewID page limit)"
proof -
  have t: "sorted_version (\<lambda>a b. tp_CreatedAt b \<le> tp_CreatedAt a)
     (filtered_Teapots s ks tq) (sorted_Teapots s ks tq)"
    unfolding sorted_Teapots_def by (rule sorted_version_desc)
  have e: "sorted_version (\<lambda>a b. tea_CreatedAt b \<le> tea_CreatedAt a)
     (filtered_Teas s ks eq) (sorted_Teas s ks eq)"
    unfolding sorted_Teas_def by (rule sorted_version_desc)
  have b: "sorted_version (\<lambda>a b. brew_CreatedAt b \<le> brew_CreatedAt a)
     (filtered_Brews s ks bq) (sorted_Brews s ks bq)"
    unfolding sorted_Brews_def by (rule sorted_version_desc)
  have bt: "sorted_version (\<lambda>a b. brew_CreatedAt b \<le> brew_CreatedAt a)
     (filtered_BrewsByTeapot s ks teapotID) (sorted_BrewsByTeapot s ks teapotID)"
    unfolding sorted_BrewsByTeapot_def by (rule sorted_version_desc)
  have st: "sorted_version (\<lambda>a b. steep_SteepNumber a \<le>s steep_SteepNumber b)
     (filtered_SteepsByBrew s ks brewID) (sorted_SteepsByBrew s ks brewID)"
    unfolding sorted_SteepsByBrew_def by (rule sorted_version_asc)
  have pt: "page_sorted (\<lambda>a b. tp_CreatedAt b \<le> tp_CreatedAt a)
     (sorted_Teapots s ks tq) (ListTeapots s ks tq)"
    unfolding ListTeapots_def using t by (intro window_page_sorted) (simp add: sorted_version_def)
  have pe: "page_sorted (\<lambda>a b. tea_CreatedAt b \<le> tea_CreatedAt a)
     (sorted_Teas s ks eq) (ListTeas s ks eq)"
    unfolding ListTeas_def using e by (intro window_page_sorted) (simp add: sorted_version_def)
  have pb: "page_sorted (\<lambda>a b. brew_CreatedAt b \<le> brew_CreatedAt a)
     (sorted_Brews s ks bq) (ListBrews s ks bq)"
    unfolding ListBrews_def using b by (intro window_page_sorted) (simp add: sorted_version_def)
  have pbt: "page_sorted (\<lambda>a b. brew_CreatedAt b \<le> brew_CreatedAt a)
     (sorted_BrewsByTeapot s ks teapotID) (ListBrewsByTeapot s ks teapotID page limit)"
    unfolding ListBrewsByTeapot_def using bt
    by (intro window_page_sorted) (simp add: sorted_version_def)
  have pst: "page_sorted (\<lambda>a b. steep_SteepNumber a \<le>s steep_SteepNumber b)
     (sorted_SteepsByBrew s ks brewID) (ListSteepsByBrew s ks brewID page limit)"
    unfolding ListSteepsByBrew_def using st
    by (intro window_page_sorted) (simp add: sorted_version_def)
  from t pt e pe b pb bt pbt st pst show ?thesis by blast
qed

theorem list_order_witness:
  "filtered_Teapots ex_store [''a'', ''b'', ''c''] (ex_tq 1 2 None) =
     [ex_teapot ''a'' ''clay'' ''kyusu'' 10, ex_teapot ''b'' ''glass'' ''kyusu'' 30,
      ex_teapot ''c'' ''clay'' ''english'' 20] \<and>
   mset (sorted_Teapots ex_store [''a'', ''b'', ''c''] (ex_tq 1 2 None)) =
     mset [ex_teapot ''a'' ''clay'' ''kyusu'' 10, ex_teapot ''b'' ''glass'' ''kyusu'' 30,
           ex_teapot ''c'' ''clay'' ''english'' 20] \<and>
   sorted_wrt (\<lambda>a b. tp_CreatedAt b \<le> tp_CreatedAt a)
     (sorted_Teapots ex_store [''a'', ''b'', ''c''] (ex_tq 1 2 None)) \<and>
   ListTeapots ex_store [''a'', ''b'', ''c''] (ex_tq 1 2 None) =
     Inr ([ex_teapot ''b'' ''glass'' ''kyusu'' 30, ex_teapot ''c'' ''clay'' ''english'' 20], 3) \<and>
   sorted_wrt (\<lambda>a b. tp_CreatedAt b \<le> tp_CreatedAt a)
     [ex_teapot ''b'' ''glass'' ''kyusu'' 30, ex_teapot ''c'' ''clay'' ''english'' 20] \<and>
   ListSteepsByBrew ex_store [''s2'', ''s1''] ''b1'' 1 5 =
     Inr ([ex_steep ''s1'' ''b1'' 1 41, ex_steep ''s2'' ''b1'' 2 42], 2) \<and>
   sorted_wrt (\<lambda>a b. steep_SteepNumber a \<le>s steep_SteepNumber b)
     [ex_steep ''s1'' ''b1'' 1 41, ex_steep ''s2'' ''b1'' 2 42]"
proof -
  have f: "filtered_Teapots ex_store [''a'', ''b'', ''c''] (ex_tq 1 2 None) =
     [ex_teapot ''a'' ''clay'' ''kyusu'' 10, ex_teapot ''b'' ''glass'' ''kyusu'' 30,
      ex_teapot ''c'' ''clay'' ''english'' 20]"
    by (simp add: list_eval ex_defs)
  have t: "ListTeapots ex_store [''a'', ''b'', ''c''] (ex_tq 1 2 None) =
     Inr ([ex_teapot ''b'' ''glass'' ''kyusu'' 30, ex_teapot ''c'' ''clay'' ''english'' 20], 3)"
    by (simp add: list_eval ex_defs)
  have st: "ListSteepsByBrew ex_store [''s2'', ''s1''] ''b1'' 1 5 =
     Inr ([ex_steep ''s1'' ''b1'' 1 41, ex_steep ''s2'' ''b1'' 2 42], 2)"
    by (simp add: list_eval ex_defs)
  note th1 = list_order [where s = ex_store and ks = "[''a'', ''b'', ''c'']"
      and tq = "ex_tq 1 2 None"]
  from th1 have "sorted_version (\<lambda>a b. tp_CreatedAt b \<le> tp_CreatedAt a)
      (filtered_Teapots ex_store [''a'', ''b'', ''c''] (ex_tq 1 2 None))
      (sorted_Teapots ex_store [''a'', ''b'', ''c''] (ex_tq 1 2 None))" by blast
  then have v: "mset (sorted_Teapots ex_store [''a'', ''b'', ''c''] (ex_tq 1 2 None)) =
     mset [ex_teapot ''a'' ''clay'' ''kyusu'' 10, ex_teapot ''b'' ''glass'' ''kyusu'' 30,
           ex_teapot ''c'' ''clay'' ''english'' 20]"
    and w: "sorted_wrt (\<lambda>a b. tp_CreatedAt b \<le> tp_CreatedAt a)
     (sorted_Teapots ex_store [''a'', ''b'', ''c''] (ex_tq 1 2 None))"
    unfolding sorted_version_def f by simp_all
  from th1 have "page_sorted (\<lambda>a b. tp_CreatedAt b \<le> tp_CreatedAt a)
      (sorted_Teapots ex_store [''a'', ''b'', ''c''] (ex_tq 1 2 None))
      (ListTeapots ex_store [''a'', ''b'', ''c''] (ex_tq 1 2 None))" by blast
  with t have a: "sorted_wrt (\<lambda>a b. tp_CreatedAt b \<le> tp_CreatedAt a)
     [ex_teapot ''b'' ''glass'' ''kyusu'' 30, ex_teapot ''c'' ''clay'' ''english'' 20]"
    unfolding page_sorted_def by blast
  from list_order [where s = ex_store and ks = "[''s2'', ''s1'']" and brewID = "''b1''"
      and page = 1 and limit = 5]
  have "page_sorted (\<lambda>a b. steep_SteepNumber a \<le>s steep_SteepNumber b)
      (sorted_SteepsByBrew ex_store [''s2'', ''s1''] ''b1'')
      (ListSteepsByBrew ex_store [''s2'', ''s1''] ''b1'' 1 5)" by blast
  with st have b: "sorted_wrt (\<lambda>a b. steep_SteepNumber a \<le>s steep_SteepNumber b)
     [ex_steep ''s1'' ''b1'' 1 41, ex_steep ''s2'' ''b1'' 2 42]"
    unfolding page_sorted_def by blast
  from f v w t st a b show ?thesis by blast
qed

subsection \<open>Filters and totals\<close>









subsection \<open>Bounds of the slice expression\<close>

lemma window_in_bounds:
  fixes page limit :: go_int
  assumes p: "1 \<le>s page" and l: "0 \<le>s limit" and fit: "no_overflow page limit"
    and n: "length xs < 2 ^ 63"
  shows "in_bounds (window xs page limit) xs page limit"
proof -
  let ?P = "sint page" and ?L = "sint limit"
  note fit' = fit [unfolded no_overflow_def]
  have P1: "1 \<le> ?P" using p by (simp add: word_sle_eq)
  have L0: "0 \<le> ?L" using l by (simp add: word_sle_eq)
  have st: "sint (win_start page limit) = (?P - 1) * ?L" by (rule win_bounds(1) [OF p l fit'])
  have en: "sint (win_start page limit + limit) = ?P * ?L" by (rule win_bounds(2) [OF p l fit'])
  have tot: "sint (len xs) = int (length xs)" by (rule sint_len [OF n])
  have ge0: "0 \<le> (?P - 1) * ?L" using P1 L0 by simp
  have le: "(?P - 1) * ?L \<le> ?P * ?L" using L0 by (simp add: mult_right_mono)
  have "\<exists>v. window xs page limit = Inr v"
    using window_exact [OF p l fit' n] by simp
  moreover have "0 \<le>s win_start page limit" using ge0 st by (simp add: word_sle_eq)
  moreover have "win_end (len xs) page limit \<le>s len xs"
    by (simp add: win_end_def Let_def word_sle_eq word_sless_alt)
  moreover have "win_start page limit \<le>s win_end (len xs) page limit"
    if "win_start page limit <s len xs"
    using that le by (simp add: win_end_def Let_def word_sle_eq word_sless_alt st en tot)
  ultimately show ?thesis by (simp add: in_bounds_def)
qed

lemma window_out_of_bounds:
  assumes "page \<le>s 0" and "1 \<le>s limit" and "no_underflow page limit"
    and "xs \<noteq> []" and "length xs < 2 ^ 63"
  shows "out_of_bounds (window xs page limit) page limit"
  using window_panics [OF assms(1,2) assms(3) [unfolded no_underflow_def] assms(4,5)]
  by (simp add: out_of_bounds_def)

lemma keep_Teapot_paging: "keep_Teapot (q\<lparr>Page := p, Limit := l\<rparr>) = keep_Teapot q"
  by (rule ext) (simp add: keep_Teapot_def)

lemma sorted_Teapots_paging:
  "sorted_Teapots s ks (q\<lparr>Page := p, Limit := l\<rparr>) = sorted_Teapots s ks q"
  by (simp add: sorted_Teapots_def filtered_Teapots_def keep_Teapot_paging)

lemma keep_Tea_paging: "keep_Tea (q\<lparr>Page := p, Limit := l\<rparr>) = keep_Tea q"
  by (rule ext) (simp add: keep_Tea_def)

lemma sorted_Teas_paging:
  "sorted_Teas s ks (q\<lparr>Page := p, Limit := l\<rparr>) = sorted_Teas s ks q"
  by (simp add: sorted_Teas_def filtered_Teas_def keep_Tea_paging)

lemma keep_Brew_paging: "keep_Brew (q\<lparr>Page := p, Limit := l\<rparr>) = keep_Brew q"
  by (rule ext) (simp add: keep_Brew_def)

lemma sorted_Brews_paging:
  "sorted_Brews s ks (q\<lparr>Page := p, Limit := l\<rparr>) = sorted_Brews s ks q"
  by (simp add: sorted_Brews_def filtered_Brews_def keep_Brew_paging)

lemma set_defaults_range:
  assumes "binding_PaginationQuery q"
  shows "1 \<le>s Page (set_defaults q) \<and> 1 \<le>s Limit (set_defaults q) \<and> Limit (set_defaults q) \<le>s 100"
  using assms by (auto simp: binding_PaginationQuery_def set_defaults_def Let_def word_sle_eq)

lemma totalPages_of_returns: "limit \<noteq> 0 \<Longrightarrow> \<exists>tp. totalPages_of t limit = Inr tp"
  by (simp add: totalPages_of_def go_div_def)

lemma list_response_returns: "limit \<noteq> 0 \<Longrightarrow> \<exists>r. list_response d p limit t = Inr r"
  using totalPages_of_returns [of limit t] by (auto simp: list_response_def)

lemma ge1_nonzero: "1 \<le>s (l :: go_int) \<Longrightarrow> l \<noteq> 0"
  by (auto simp: word_sle_eq)

lemma window_returns:
  assumes "1 \<le>s page" and "1 \<le>s limit" and "no_overflow page limit" and "length xs \<le> length ks"
    and "length ks < 2 ^ 63"
  shows "\<exists>ys. window xs page limit = Inr (ys, len xs)"
proof -
  have l0: "0 \<le>s limit" using assms(2) by (simp add: word_sle_eq)
  have "length xs < 2 ^ 63" using assms(4,5) by (rule le_less_trans)
  from window_exact [OF assms(1) l0 assms(3) [unfolded no_overflow_def] this]
  show ?thesis by blast
qed

lemma handler_list_returns:
  fixes q :: "'a PaginationQuery_scheme"
  assumes b: "binding_PaginationQuery q"
    and fit: "no_overflow (Page (set_defaults q)) (Limit (set_defaults q))"
    and le: "length xs \<le> length ks" and size: "length ks < 2 ^ 63"
  shows "\<exists>r. (case window xs (Page (set_defaults q)) (Limit (set_defaults q)) of
                Inl p \<Rightarrow> Inl p
              | Inr (ys, tot) \<Rightarrow>
                  list_response ys (Page (set_defaults q)) (Limit (set_defaults q)) tot) = Inr r"
proof -
  from set_defaults_range [OF b]
  have p: "1 \<le>s Page (set_defaults q)" and l: "1 \<le>s Limit (set_defaults q)" by simp_all
  from window_returns [OF p l fit le size] obtain ys
    where w: "window xs (Page (set_defaults q)) (Limit (set_defaults q)) = Inr (ys, len xs)" ..
  from list_response_returns [OF ge1_nonzero [OF l]] obtain r
    where "list_response ys (Page (set_defaults q)) (Limit (set_defaults q)) (len xs) = Inr r" ..
  with w show ?thesis by simp
qed

lemma TeapotHandler_List_returns:
  assumes "binding_PaginationQuery q"
    and "no_overflow (Page (set_defaults q)) (Limit (set_defaults q))" and "length ks < 2 ^ 63"
  shows "\<exists>r. TeapotHandler_List s ks (Inr q) = Inr r"
  using handler_list_returns [OF assms(1,2) length_sorted_Teapots assms(3)]
  by (simp add: TeapotHandler_List_def ListTeapots_def Let_def)

lemma TeaHandler_List_returns:
  assumes "binding_PaginationQuery q"
    and "no_overflow (Page (set_defaults q)) (Limit (set_defaults q))" and "length ks < 2 ^ 63"
  shows "\<exists>r. TeaHandler_List s ks (Inr q) = Inr r"
  using handler_list_returns [OF assms(1,2) length_sorted_Teas assms(3)]
  by (simp add: TeaHandler_List_def ListTeas_def Let_def)

lemma BrewHandler_List_returns:
  assumes "binding_PaginationQuery q"
    and "no_overflow (Page (set_defaults q)) (Limit (set_defaults q))" and "length ks < 2 ^ 63"
  shows "\<exists>r. BrewHandler_List s ks (Inr q) = Inr r"
  using handler_list_returns [OF assms(1,2) length_sorted_Brews assms(3)]
  by (simp add: BrewHandler_List_def ListBrews_def Let_def)

lemma BrewHandler_ListByTeapot_returns:
  assumes "binding_PaginationQuery q"
    and "no_overflow (Page (set_defaults q)) (Limit (set_defaults q))" and "length ks < 2 ^ 63"
  shows "\<exists>r. BrewHandler_ListByTeapot u s ks i (Inr q) = Inr r"
  using handler_list_returns [OF assms(1,2) length_sorted_BrewsByTeapot assms(3)]
  by (simp add: BrewHandler_ListByTeapot_def ListBrewsByTeapot_def Let_def)

lemma BrewHandler_ListSteeps_returns:
  assumes "binding_PaginationQuery q"
    and "no_overflow (Page (set_defaults q)) (Limit (set_defaults q))" and "length ks < 2 ^ 63"
  shows "\<exists>r. BrewHandler_ListSteeps u s ks i (Inr q) = Inr r"
  using handler_list_returns [OF assms(1,2) length_sorted_SteepsByBrew assms(3)]
  by (simp add: BrewHandler_ListSteeps_def ListSteepsByBrew_def Let_def)

lemma sorted_nonempty: "xs \<noteq> [] \<Longrightarrow> sort_Slice lt xs \<noteq> []"
  using length_sort_Slice [of lt xs] by auto

text \<open>
  Where no product wraps around, the bounds are as intended. With \<open>page \<ge> 1\<close>, \<open>limit \<ge> 0\<close>
  and \<open>page * limit\<close> within the range of a 64-bit int, each list operation returns and the
  bounds of its slice expression satisfy \<open>0 \<le> start \<le> end \<le> len(filtered)\<close>; with
  \<open>page \<le> 0\<close>, \<open>limit \<ge> 1\<close>, \<open>(page-1)*limit\<close> within range and at least one matching
  record, the start index is negative and the slice expression panics. A query that passed
  binding leaves \<open>set_defaults\<close> with \<open>page \<ge> 1\<close> and \<open>1 \<le> limit \<le> 100\<close>. These conditions
  are sufficient, not necessary.
\<close>

lemma list_bounds_in_range:
  fixes tq :: TeapotQuery and eq :: TeaQuery and bq :: BrewQuery and pq :: PaginationQuery
  assumes size: "length ks < 2 ^ 63"
  shows
   "(1 \<le>s page \<and> 0 \<le>s limit \<and> no_overflow page limit \<longrightarrow>
       in_bounds (ListTeapots s ks (tq\<lparr>Page := page, Limit := limit\<rparr>))
         (sorted_Teapots s ks tq) page limit \<and>
       in_bounds (ListTeas s ks (eq\<lparr>Page := page, Limit := limit\<rparr>))
         (sorted_Teas s ks eq) page limit \<and>
       in_bounds (ListBrews s ks (bq\<lparr>Page := page, Limit := limit\<rparr>))
         (sorted_Brews s ks bq) page limit \<and>
       in_bounds (ListBrewsByTeapot s ks teapotID page limit)
         (sorted_BrewsByTeapot s ks teapotID) page limit \<and>
       in_bounds (ListSteepsByBrew s ks brewID page limit)
         (sorted_SteepsByBrew s ks brewID) page limit) \<and>
    (page \<le>s 0 \<and> 1 \<le>s limit \<and> no_underflow page limit \<longrightarrow>
       (filtered_Teapots s ks tq \<noteq> [] \<longrightarrow>
          out_of_bounds (ListTeapots s ks (tq\<lparr>Page := page, Limit := limit\<rparr>)) page limit) \<and>
       (filtered_Teas s ks eq \<noteq> [] \<longrightarrow>
          out_of_bounds (ListTeas s ks (eq\<lparr>Page := page, Limit := limit\<rparr>)) page limit) \<and>
       (filtered_Brews s ks bq \<noteq> [] \<longrightarrow>
          out_of_bounds (ListBrews s ks (bq\<lparr>Page := page, Limit := limit\<rparr>)) page limit) \<and>
       (filtered_BrewsByTeapot s ks teapotID \<noteq> [] \<longrightarrow>
          out_of_bounds (ListBrewsByTeapot s ks teapotID page limit) page limit) \<and>
       (filtered_SteepsByBrew s ks brewID \<noteq> [] \<longrightarrow>
          out_of_bounds (ListSteepsByBrew s ks brewID page limit) page limit)) \<and>
    (binding_PaginationQuery pq \<longrightarrow>
       1 \<le>s Page (set_defaults pq) \<and> 1 \<le>s Limit (set_defaults pq) \<and>
       Limit (set_defaults pq) \<le>s 100) \<and>
    (binding_PaginationQuery tq \<and> no_overflow (Page (set_defaults tq)) (Limit (set_defaults tq)) \<longrightarrow>
       (\<exists>r. TeapotHandler_List s ks (Inr tq) = Inr r)) \<and>
    (binding_PaginationQuery eq \<and> no_overflow (Page (set_defaults eq)) (Limit (set_defaults eq)) \<longrightarrow>
       (\<exists>r. TeaHandler_List s ks (Inr eq) = Inr r)) \<and>
    (binding_PaginationQuery bq \<and> no_overflow (Page (set_defaults bq)) (Limit (set_defaults bq)) \<longrightarrow>
       (\<exists>r. BrewHandler_List s ks (Inr bq) = Inr r)) \<and>
    (binding_PaginationQuery pq \<and> no_overflow (Page (set_defaults pq)) (Limit (set_defaults pq)) \<longrightarrow>
       (\<exists>r. BrewHandler_ListByTeapot uuid_Parse s ks teapotID (Inr pq) = Inr r) \<and>
       (\<exists>r. BrewHandler_ListSteeps uuid_Parse s ks brewID (Inr pq) = Inr r))"
  (is "?A \<and> ?B \<and> ?C \<and> ?D \<and> ?E \<and> ?F \<and> ?G")
proof -
  have a: ?A
  proof (intro impI conjI)
    assume h: "1 \<le>s page \<and> 0 \<le>s limit \<and> no_overflow page limit"
    then have p: "1 \<le>s page" and l: "0 \<le>s limit" and f: "no_overflow page limit" by simp_all
    note w = window_in_bounds [OF p l f]
    show "in_bounds (ListTeapots s ks (tq\<lparr>Page := page, Limit := limit\<rparr>))
         (sorted_Teapots s ks tq) page limit"
      using w [OF lt_bound [OF length_sorted_Teapots size]]
      by (simp add: ListTeapots_def sorted_Teapots_paging)
    show "in_bounds (ListTeas s ks (eq\<lparr>Page := page, Limit := limit\<rparr>))
         (sorted_Teas s ks eq) page limit"
      using w [OF lt_bound [OF length_sorted_Teas size]]
      by (simp add: ListTeas_def sorted_Teas_paging)
    show "in_bounds (ListBrews s ks (bq\<lparr>Page := page, Limit := limit\<rparr>))
         (sorted_Brews s ks bq) page limit"
      using w [OF lt_bound [OF length_sorted_Brews size]]
      by (simp add: ListBrews_def sorted_Brews_paging)
    show "in_bounds (ListBrewsByTeapot s ks teapotID page limit)
         (sorted_BrewsByTeapot s ks teapotID) page limit"
      using w [OF lt_bound [OF length_sorted_BrewsByTeapot size]]
      by (simp add: ListBrewsByTeapot_def)
    show "in_bounds (ListSteepsByBrew s ks brewID page limit)
         (sorted_SteepsByBrew s ks brewID) page limit"
      using w [OF lt_bound [OF length_sorted_SteepsByBrew size]]
      by (simp add: ListSteepsByBrew_def)
  qed
  have b: ?B
  proof (intro impI conjI)
    assume h: "page \<le>s 0 \<and> 1 \<le>s limit \<and> no_underflow page limit"
    then have p: "page \<le>s 0" and l: "1 \<le>s limit" and f: "no_underflow page limit" by simp_all
    note w = window_out_of_bounds [OF p l f]
    show "out_of_bounds (ListTeapots s ks (tq\<lparr>Page := page, Limit := limit\<rparr>)) page limit"
      if "filtered_Teapots s ks tq \<noteq> []"
    proof -
      have "sorted_Teapots s ks tq \<noteq> []"
        using sorted_nonempty [OF that] by (simp add: sorted_Teapots_def)
      from w [OF this lt_bound [OF length_sorted_Teapots size]] show ?thesis
        by (simp add: ListTeapots_def sorted_Teapots_paging)
    qed
    show "out_of_bounds (ListTeas s ks (eq\<lparr>Page := page, Limit := limit\<rparr>)) page limit"
      if "filtered_Teas s ks eq \<noteq> []"
    proof -
      have "sorted_Teas s ks eq \<noteq> []"
        using sorted_nonempty [OF that] by (simp add: sorted_Teas_def)
      from w [OF this lt_bound [OF length_sorted_Teas size]] show ?thesis
        by (simp add: ListTeas_def sorted_Teas_paging)
    qed
    show "out_of_bounds (ListBrews s ks (bq\<lparr>Page := page, Limit := limit\<rparr>)) page limit"
      if "filtered_Brews s ks bq \<noteq> []"
    proof -
      have "sorted_Brews s ks bq \<noteq> []"
        using sorted_nonempty [OF that] by (simp add: sorted_Brews_def)
      from w [OF this lt_bound [OF length_sorted_Brews size]] show ?thesis
        by (simp add: ListBrews_def sorted_Brews_paging)
    qed
    show "out_of_bounds (ListBrewsByTeapot s ks teapotID page limit) page limit"
      if "filtered_BrewsByTeapot s ks teapotID \<noteq> []"
    proof -
      have "sorted_BrewsByTeapot s ks teapotID \<noteq> []"
        using sorted_nonempty [OF that] by (simp add: sorted_BrewsByTeapot_def)
      from w [OF this lt_bound [OF length_sorted_BrewsByTeapot size]] show ?thesis
        by (simp add: ListBrewsByTeapot_def)
    qed
    show "out_of_bounds (ListSteepsByBrew s ks brewID page limit) page limit"
      if "filtered_SteepsByBrew s ks brewID \<noteq> []"
    proof -
      have "sorted_SteepsByBrew s ks brewID \<noteq> []"
        using sorted_nonempty [OF that] by (simp add: sorted_SteepsByBrew_def)
      from w [OF this lt_bound [OF length_sorted_SteepsByBrew size]] show ?thesis
        by (simp add: ListSteepsByBrew_def)
    qed
  qed
  have c: ?C using set_defaults_range [of pq] by blast
  have d: ?D using TeapotHandler_List_returns [OF _ _ size] by blast
  have e: ?E using TeaHandler_List_returns [OF _ _ size] by blast
  have f: ?F using BrewHandler_List_returns [OF _ _ size] by blast
  have g: ?G
    using BrewHandler_ListByTeapot_returns [OF _ _ size] BrewHandler_ListSteeps_returns [OF _ _ size]
    by blast
  from a b c d e f g show ?thesis by blast
qed

text \<open>
  C10. The claim is that the list operations index in bounds once \<open>page \<ge> 1\<close>, and that
  binding and defaults give the store such a page, so that no request reaches the
  out-of-bounds slice. The code does not keep to it. The request
  \<open>GET /teapots?page=4611686018427387905&limit=6\<close> passes the binding and the defaults leave
  it as it is, with \<open>page \<ge> 1\<close> and \<open>1 \<le> limit \<le> 100\<close>. The product \<open>(page-1)*limit\<close> wraps
  around to \<open>-2^63\<close>: the guard \<open>if start >= total\<close> does not return, the slice expression
  \<open>filtered[start:end]\<close> has a negative start, and store and handler panic. For page 1 the
  same limit is served in bounds.
\<close>

theorem list_bounds_panic_at_large_page:
  "binding_PaginationQuery (ex_tq 4611686018427387905 6 None) \<and>
   set_defaults (ex_tq 4611686018427387905 6 None) = ex_tq 4611686018427387905 6 None \<and>
   1 \<le>s (4611686018427387905 :: go_int) \<and> 1 \<le>s (6 :: go_int) \<and> (6 :: go_int) \<le>s 100 \<and>
   win_start 4611686018427387905 6 = - 9223372036854775808 \<and>
   win_start 4611686018427387905 6 <s 0 \<and>
   win_start 4611686018427387905 6 <s
     len (sorted_Teapots ex_store [''a'', ''b'', ''c''] (ex_tq 4611686018427387905 6 None)) \<and>
   ListTeapots ex_store [''a'', ''b'', ''c''] (ex_tq 4611686018427387905 6 None) =
     Inl SliceBoundsOutOfRange \<and>
   TeapotHandler_List ex_store [''a'', ''b'', ''c''] (Inr (ex_tq 4611686018427387905 6 None)) =
     Inl SliceBoundsOutOfRange \<and>
   ListTeapots ex_store [''a'', ''b'', ''c''] (ex_tq 1 6 None) =
     Inr ([ex_teapot ''b'' ''glass'' ''kyusu'' 30, ex_teapot ''c'' ''clay'' ''english'' 20,
           ex_teapot ''a'' ''clay'' ''kyusu'' 10], 3)"
  unfolding ex_sorted_Teapots
  by (simp add: list_eval handler_eval binding_PaginationQuery_def ex_defs)

section \<open>Total pages\<close>









section \<open>Creating steeps\<close>

lemma foldl_count:
  fixes a :: go_int
  shows "foldl (\<lambda>count x. if P x then count + 1 else count) a xs =
         a + of_nat (length (filter P xs))"
  by (induction xs arbitrary: a) (simp_all add: algebra_simps)

lemma CountSteepsByBrew_card:
  assumes "visits (steeps s) ks"
  shows "CountSteepsByBrew s ks brewID = of_nat (steeps_of s brewID)"
  unfolding CountSteepsByBrew_def steeps_of_def foldl_count
  using count_range_values [OF assms, of "\<lambda>st. steep_BrewID st = brewID"] by simp

lemma steeps_of_le:
  assumes "visits (steeps s) ks"
  shows "steeps_of s brewID \<le> length ks"
  unfolding steeps_of_def
  using count_range_values [OF assms, of "\<lambda>st. steep_BrewID st = brewID", symmetric]
    length_filtered_le [of "\<lambda>st. steep_BrewID st = brewID" "steeps s" ks] by simp

lemma steeps_of_CreateSteep:
  assumes fin: "finite (dom (steeps s))" and fresh: "steep_ID st \<notin> dom (steeps s)"
  shows "steeps_of (CreateSteep s st) brewID =
         (if steep_BrewID st = brewID then Suc (steeps_of s brewID) else steeps_of s brewID)"
proof -
  let ?A = "{k \<in> dom (steeps s). steep_BrewID (the (steeps s k)) = brewID}"
  let ?m = "(steeps s)(steep_ID st \<mapsto> st)"
  have fA: "finite ?A" using fin by simp
  have nA: "steep_ID st \<notin> ?A" using fresh by simp
  have same: "\<And>k. k \<in> dom (steeps s) \<Longrightarrow> ?m k = steeps s k" using fresh by auto
  show ?thesis
  proof (cases "steep_BrewID st = brewID")
    case True
    have "{k \<in> dom ?m. steep_BrewID (the (?m k)) = brewID} = insert (steep_ID st) ?A"
      using True fresh by (auto split: if_splits)
    then show ?thesis using True fA nA by (simp add: steeps_of_def CreateSteep_def)
  next
    case False
    have "{k \<in> dom ?m. steep_BrewID (the (?m k)) = brewID} = ?A"
      using False fresh by (auto split: if_splits)
    then show ?thesis using False by (simp add: steeps_of_def CreateSteep_def)
  qed
qed

lemma visits_finite: "visits m ks \<Longrightarrow> finite (dom m)"
  by (auto simp: visits_def dest: sym)

lemma CreateSteep_handler:
  assumes u: "uuid_Parse brewID" and b: "snd (GetBrew s brewID)"
  shows "BrewHandler_CreateSteep uuid_Parse s ks brewID (Inr req) now new_id =
     (JSON StatusCreated
        \<lparr>steep_ID = new_id, steep_BrewID = brewID,
         steep_SteepNumber = CountSteepsByBrew s ks brewID + 1,
         steep_DurationSeconds = cs_DurationSeconds req, steep_Rating = cs_Rating req,
         steep_Notes = cs_Notes req, steep_CreatedAt = now\<rparr>,
      CreateSteep s
        \<lparr>steep_ID = new_id, steep_BrewID = brewID,
         steep_SteepNumber = CountSteepsByBrew s ks brewID + 1,
         steep_DurationSeconds = cs_DurationSeconds req, steep_Rating = cs_Rating req,
         steep_Notes = cs_Notes req, steep_CreatedAt = now\<rparr>)"
  using u b by (simp add: BrewHandler_CreateSteep_def Let_def)

lemma sint_of_nat_Suc:
  assumes "n + 1 < 2 ^ 63"
  shows "sint (of_nat n + 1 :: go_int) = int n + 1"
proof -
  have e: "(of_nat n + 1 :: go_int) = of_nat (Suc n)" by simp
  have "sint (of_nat (Suc n) :: go_int) = int (Suc n)"
    using assms by (simp only: signed_of_nat) (simp add: signed_take_bit_int_eq_self)
  then show ?thesis unfolding e by simp
qed

lemma GetBrew_CreateSteep: "GetBrew (CreateSteep s st) k = GetBrew s k"
  by (simp add: GetBrew_def CreateSteep_def)

lemma dom_steeps_CreateSteep: "dom (steeps (CreateSteep s st)) = insert (steep_ID st) (dom (steeps s))"
  by (simp add: CreateSteep_def)

lemma created_number:
  assumes u: "uuid_Parse brewID" and b: "snd (GetBrew s brewID)" and v: "visits (steeps s) ks"
    and r: "r = BrewHandler_CreateSteep uuid_Parse s ks brewID (Inr req) now new_id"
    and fresh: "new_id \<notin> dom (steeps s)"
  shows "created_SteepNumber r = Some (of_nat (steeps_of s brewID) + 1)"
    and "snd (GetBrew (snd r) brewID)"
    and "steeps_of (snd r) brewID = Suc (steeps_of s brewID)"
    and "dom (steeps (snd r)) = insert new_id (dom (steeps s))"
proof -
  note h = CreateSteep_handler [where uuid_Parse = uuid_Parse, OF u b, of ks req now new_id]
  show "created_SteepNumber r = Some (of_nat (steeps_of s brewID) + 1)"
    unfolding r h by (simp add: created_SteepNumber_def CountSteepsByBrew_card [OF v])
  show "snd (GetBrew (snd r) brewID)" unfolding r h using b by (simp add: GetBrew_CreateSteep)
  show "steeps_of (snd r) brewID = Suc (steeps_of s brewID)"
    unfolding r h using fresh by (simp add: steeps_of_CreateSteep [OF visits_finite [OF v]])
  show "dom (steeps (snd r)) = insert new_id (dom (steeps s))"
    unfolding r h by (simp add: dom_steeps_CreateSteep)
qed

text \<open>
  C5. A steep created for an existing brew (valid identifier, body bound) gets as
  \<open>SteepNumber\<close> the number of steeps the store holds for that brew plus 1. Three creations
  in a row for a brew without steeps, under fresh identifiers, get the numbers 1, 2, 3.
\<close>

theorem steep_numbering:
  assumes u: "uuid_Parse brewID" and b: "snd (GetBrew s brewID)"
    and v1: "visits (steeps s) ks1" and size: "length ks1 + 1 < 2 ^ 63"
  shows
   "(\<exists>steep. BrewHandler_CreateSteep uuid_Parse s ks1 brewID (Inr req1) now1 id1 =
        (JSON StatusCreated steep, CreateSteep s steep) \<and>
      steep_ID steep = id1 \<and> steep_BrewID steep = brewID \<and>
      sint (steep_SteepNumber steep) = int (steeps_of s brewID) + 1) \<and>
    (steeps_of s brewID = 0 \<and> distinct [id1, id2, id3] \<and>
     set [id1, id2, id3] \<inter> dom (steeps s) = {} \<and>
     r1 = BrewHandler_CreateSteep uuid_Parse s ks1 brewID (Inr req1) now1 id1 \<and>
     visits (steeps (snd r1)) ks2 \<and>
     r2 = BrewHandler_CreateSteep uuid_Parse (snd r1) ks2 brewID (Inr req2) now2 id2 \<and>
     visits (steeps (snd r2)) ks3 \<and>
     r3 = BrewHandler_CreateSteep uuid_Parse (snd r2) ks3 brewID (Inr req3) now3 id3 \<longrightarrow>
     created_SteepNumber r1 = Some 1 \<and> created_SteepNumber r2 = Some 2 \<and>
     created_SteepNumber r3 = Some 3)"
  (is "?A \<and> (?H \<longrightarrow> ?C)")
proof (intro conjI impI)
  let ?n = "CountSteepsByBrew s ks1 brewID + 1"
  let ?st = "\<lparr>steep_ID = id1, steep_BrewID = brewID, steep_SteepNumber = ?n,
         steep_DurationSeconds = cs_DurationSeconds req1, steep_Rating = cs_Rating req1,
         steep_Notes = cs_Notes req1, steep_CreatedAt = now1\<rparr>"
  have "steeps_of s brewID + 1 < 2 ^ 63" using steeps_of_le [OF v1, of brewID] size by linarith
  then have "sint ?n = int (steeps_of s brewID) + 1"
    unfolding CountSteepsByBrew_card [OF v1] by (rule sint_of_nat_Suc)
  with CreateSteep_handler [where uuid_Parse = uuid_Parse, OF u b, of ks1 req1 now1 id1]
  have "BrewHandler_CreateSteep uuid_Parse s ks1 brewID (Inr req1) now1 id1 =
        (JSON StatusCreated ?st, CreateSteep s ?st) \<and>
      steep_ID ?st = id1 \<and> steep_BrewID ?st = brewID \<and>
      sint (steep_SteepNumber ?st) = int (steeps_of s brewID) + 1" by simp
  then show ?A by blast
next
  assume h: ?H
  then have z: "steeps_of s brewID = 0" and d: "id1 \<noteq> id2" "id1 \<noteq> id3" "id2 \<noteq> id3"
    and f: "id1 \<notin> dom (steeps s)" "id2 \<notin> dom (steeps s)" "id3 \<notin> dom (steeps s)"
    and r1: "r1 = BrewHandler_CreateSteep uuid_Parse s ks1 brewID (Inr req1) now1 id1"
    and v2: "visits (steeps (snd r1)) ks2"
    and r2: "r2 = BrewHandler_CreateSteep uuid_Parse (snd r1) ks2 brewID (Inr req2) now2 id2"
    and v3: "visits (steeps (snd r2)) ks3"
    and r3: "r3 = BrewHandler_CreateSteep uuid_Parse (snd r2) ks3 brewID (Inr req3) now3 id3"
    by auto
  note c1 = created_number [where uuid_Parse = uuid_Parse, OF u b v1 r1 f(1)]
  have f2: "id2 \<notin> dom (steeps (snd r1))" using c1(4) d f by simp
  note c2 = created_number [where uuid_Parse = uuid_Parse, OF u c1(2) v2 r2 f2]
  have f3: "id3 \<notin> dom (steeps (snd r2))" using c2(4) c1(4) d f by simp
  note c3 = created_number [where uuid_Parse = uuid_Parse, OF u c2(2) v3 r3 f3]
  show "created_SteepNumber r1 = Some 1" using c1(1) z by simp
  show "created_SteepNumber r2 = Some 2" using c2(1) c1(3) z by simp
  show "created_SteepNumber r3 = Some 3" using c3(1) c2(3) c1(3) z by simp
qed

theorem steep_numbering_witness:
  "snd (GetBrew ex_store ''b2'') \<and> visits (steeps ex_store) [''s2'', ''s1''] \<and>
   steeps_of ex_store ''b2'' = 0 \<and>
   created_SteepNumber ex_r1 = Some 1 \<and> created_SteepNumber ex_r2 = Some 2 \<and>
   created_SteepNumber ex_r3 = Some 3 \<and>
   created_SteepNumber (BrewHandler_CreateSteep (\<lambda>i. True) ex_store [''s2'', ''s1''] ''b1''
     (Inr ex_steep_req) 60 ''s3'') = Some 3"
proof -
  have b: "snd (GetBrew ex_store ''b2'')" by (simp add: GetBrew_def ex_defs)
  have sz: "length [''s2'', ''s1''] + 1 < 2 ^ 63" by simp
  have z: "steeps_of ex_store ''b2'' = 0"
    by (auto simp: steeps_of_def ex_defs split: if_splits)
  have s1: "steeps (snd ex_r1) = (steeps ex_store)(''s3'' \<mapsto> ex_steep ''s3'' ''b2'' 1 60
      \<lparr>steep_Rating := Some 4\<rparr>)"
    by (simp add: ex_r1_def create_eval ex_defs ex_steep_req_def)
  have v2: "visits (steeps (snd ex_r1)) [''s3'', ''s1'', ''s2'']"
    unfolding s1 by (auto simp: visits_def ex_store_def)
  have s2: "steeps (snd ex_r2) = (steeps (snd ex_r1))(''s4'' \<mapsto> ex_steep ''s4'' ''b2'' 2 61
      \<lparr>steep_Rating := Some 4\<rparr>)"
    unfolding ex_r2_def by (simp add: s1 create_eval ex_defs ex_steep_req_def ex_r1_def)
  have v3: "visits (steeps (snd ex_r2)) [''s1'', ''s4'', ''s2'', ''s3'']"
    unfolding s2 s1 by (auto simp: visits_def ex_store_def)
  have d: "distinct [''s3'', ''s4'', ''s5''] \<and>
      set [''s3'', ''s4'', ''s5''] \<inter> dom (steeps ex_store) = {}"
    by (simp add: ex_store_def)
  note th = steep_numbering [where uuid_Parse = "\<lambda>i. True" and brewID = "''b2''" and s = ex_store
      and ?ks1.0 = "[''s2'', ''s1'']" and ?id1.0 = "''s3''" and ?id2.0 = "''s4''"
      and ?id3.0 = "''s5''" and ?req1.0 = ex_steep_req and ?req2.0 = ex_steep_req
      and ?req3.0 = ex_steep_req and ?now1.0 = 60 and ?now2.0 = 61 and ?now3.0 = 62
      and ?r1.0 = ex_r1 and ?r2.0 = ex_r2 and ?r3.0 = ex_r3
      and ?ks2.0 = "[''s3'', ''s1'', ''s2'']" and ?ks3.0 = "[''s1'', ''s4'', ''s2'', ''s3'']",
      OF TrueI b ex_visits(4) sz]
  from th z d v2 v3
  have n: "created_SteepNumber ex_r1 = Some 1 \<and> created_SteepNumber ex_r2 = Some 2 \<and>
      created_SteepNumber ex_r3 = Some 3"
    by (simp add: ex_r1_def ex_r2_def ex_r3_def)
  have o: "created_SteepNumber (BrewHandler_CreateSteep (\<lambda>i. True) ex_store [''s2'', ''s1''] ''b1''
     (Inr ex_steep_req) 60 ''s3'') = Some 3"
    by (simp add: created_SteepNumber_def create_eval ex_defs)
  from b ex_visits(4) z n o show ?thesis by blast
qed

section \<open>Creating brews\<close>

lemma brews_TeaHandler_Patch: "brews (snd (TeaHandler_Patch uuid_Parse s id0 body now)) = brews s"
  by (simp add: TeaHandler_Patch_def UpdateTea_def Let_def split: sum.split prod.split)

lemma brews_TeaHandler_Update: "brews (snd (TeaHandler_Update uuid_Parse s id0 body now)) = brews s"
  by (simp add: TeaHandler_Update_def UpdateTea_def Let_def split: sum.split prod.split)

lemma GetBrew_cong: "brews s' = brews s \<Longrightarrow> GetBrew s' k = GetBrew s k"
  by (simp add: GetBrew_def)

text \<open>
  C6. A brew created without \<open>waterTempCelsius\<close> for an existing teapot and tea is stored
  with the tea's \<open>SteepTempCelsius\<close> of that moment and the status \<open>preparing\<close>; no later
  update or patch of a tea changes the stored brew.
\<close>

theorem brew_default_temperature:
  assumes tp: "snd (GetTeapot s (cb_TeapotID req))"
    and tea: "GetTea s (cb_TeaID req) = (tea, True)"
    and none: "cb_WaterTempCelsius req = None"
    and r: "r = BrewHandler_Create s (Inr req) now new_id"
  shows "\<exists>brew. fst r = JSON StatusCreated brew \<and> snd r = CreateBrew s brew \<and>
      brew_ID brew = new_id \<and>
      brew_WaterTempCelsius brew = tea_SteepTempCelsius tea \<and>
      brew_Status brew = ''preparing'' \<and>
      GetBrew (snd r) new_id = (brew, True) \<and>
      GetBrew (UpdateTea (snd r) tea') new_id = (brew, True) \<and>
      GetBrew (snd (TeaHandler_Patch uuid_Parse (snd r) id0 pbody now')) new_id = (brew, True) \<and>
      GetBrew (snd (TeaHandler_Update uuid_Parse (snd r) id0 ubody now')) new_id = (brew, True)"
proof -
  let ?brew = "\<lparr>brew_ID = new_id, brew_TeapotID = cb_TeapotID req, brew_TeaID = cb_TeaID req,
      brew_Status = BrewPreparing, brew_WaterTempCelsius = tea_SteepTempCelsius tea,
      brew_Notes = cb_Notes req, brew_StartedAt = now, brew_CompletedAt = None,
      brew_CreatedAt = now, brew_UpdatedAt = now\<rparr>"
  have r': "r = (JSON StatusCreated ?brew, CreateBrew s ?brew)"
    unfolding r using tp tea none by (simp add: BrewHandler_Create_def Let_def)
  have g: "GetBrew (snd r) new_id = (?brew, True)"
    unfolding r' by (simp add: GetBrew_def CreateBrew_def)
  have u: "GetBrew (UpdateTea (snd r) tea') new_id = (?brew, True)"
    using g by (simp add: GetBrew_def UpdateTea_def)
  have p: "GetBrew (snd (TeaHandler_Patch uuid_Parse (snd r) id0 pbody now')) new_id = (?brew, True)"
    using g GetBrew_cong [OF brews_TeaHandler_Patch] by simp
  have q: "GetBrew (snd (TeaHandler_Update uuid_Parse (snd r) id0 ubody now')) new_id = (?brew, True)"
    using g GetBrew_cong [OF brews_TeaHandler_Update] by simp
  have "fst r = JSON StatusCreated ?brew \<and> snd r = CreateBrew s ?brew \<and>
      brew_ID ?brew = new_id \<and>
      brew_WaterTempCelsius ?brew = tea_SteepTempCelsius tea \<and>
      brew_Status ?brew = ''preparing''"
    unfolding r' by (simp add: BrewPreparing_def)
  with g u p q show ?thesis by blast
qed

theorem brew_default_temperature_witness:
  "snd (GetTeapot ex_store ''a'') \<and> GetTea ex_store ''t1'' = (ex_tea, True) \<and>
   fst (BrewHandler_Create ex_store (Inr (ex_brew_req ''a'' ''t1'')) 70 ''b3'') =
     JSON 201 (ex_brew ''b3'' ''a'' ''preparing'' 70) \<and>
   brew_WaterTempCelsius (ex_brew ''b3'' ''a'' ''preparing'' 70) = tea_SteepTempCelsius ex_tea \<and>
   GetBrew (UpdateTea (snd (BrewHandler_Create ex_store (Inr (ex_brew_req ''a'' ''t1'')) 70 ''b3''))
       (ex_tea\<lparr>tea_SteepTempCelsius := 95\<rparr>)) ''b3'' =
     (ex_brew ''b3'' ''a'' ''preparing'' 70, True)"
proof -
  have tp: "snd (GetTeapot ex_store (cb_TeapotID (ex_brew_req ''a'' ''t1'')))"
    by (simp add: GetTeapot_def ex_defs ex_brew_req_def)
  have tea: "GetTea ex_store (cb_TeaID (ex_brew_req ''a'' ''t1'')) = (ex_tea, True)"
    by (simp add: GetTea_def ex_store_def ex_brew_req_def)
  have none: "cb_WaterTempCelsius (ex_brew_req ''a'' ''t1'') = None" by (simp add: ex_brew_req_def)
  have e: "fst (BrewHandler_Create ex_store (Inr (ex_brew_req ''a'' ''t1'')) 70 ''b3'') =
     JSON 201 (ex_brew ''b3'' ''a'' ''preparing'' 70)"
    by (simp add: create_eval ex_defs ex_brew_req_def BrewPreparing_def)
  from brew_default_temperature [OF tp tea none refl,
      where tea' = "ex_tea\<lparr>tea_SteepTempCelsius := 95\<rparr>" and now = 70 and new_id = "''b3''"]
  obtain brew where
    f: "fst (BrewHandler_Create ex_store (Inr (ex_brew_req ''a'' ''t1'')) 70 ''b3'') =
          JSON StatusCreated brew"
    and w: "brew_WaterTempCelsius brew = tea_SteepTempCelsius ex_tea"
    and g: "GetBrew (UpdateTea (snd (BrewHandler_Create ex_store (Inr (ex_brew_req ''a'' ''t1'')) 70
          ''b3'')) (ex_tea\<lparr>tea_SteepTempCelsius := 95\<rparr>)) ''b3'' = (brew, True)"
    by blast
  from f e have "brew = ex_brew ''b3'' ''a'' ''preparing'' 70" by simp
  with w g e tp tea show ?thesis by (simp add: ex_brew_req_def)
qed

text \<open>
  C7. Creating a brew whose \<open>teapotId\<close> or \<open>teaId\<close> names no stored teapot or tea answers
  400 with the code \<open>VALIDATION_ERROR\<close> (not 404 \<open>NOT_FOUND\<close>) and leaves the store as it
  was.
\<close>

theorem brew_create_missing_reference:
  assumes "teapots s (cb_TeapotID req) = None \<or> teas s (cb_TeaID req) = None"
  shows "(\<exists>msg. BrewHandler_Create s (Inr req) now new_id =
            (JSONError 400 \<lparr>Code = ''VALIDATION_ERROR'', Message = msg\<rparr>, s)) \<and>
         fst (BrewHandler_Create s (Inr req) now new_id) \<noteq> not_found msg' \<and>
         brews (snd (BrewHandler_Create s (Inr req) now new_id)) = brews s"
proof (cases "teapots s (cb_TeapotID req)")
  case None
  then show ?thesis
    by (simp add: BrewHandler_Create_def GetTeapot_def validation_error_def not_found_def
        StatusBadRequest_def StatusNotFound_def)
next
  case (Some t)
  with assms have "teas s (cb_TeaID req) = None" by simp
  with Some show ?thesis
    by (simp add: BrewHandler_Create_def GetTeapot_def GetTea_def validation_error_def
        not_found_def StatusBadRequest_def StatusNotFound_def)
qed

theorem brew_create_missing_reference_witness:
  "teapots ex_store ''zz'' = None \<and>
   BrewHandler_Create ex_store (Inr (ex_brew_req ''zz'' ''t1'')) 70 ''b3'' =
     (JSONError 400 \<lparr>Code = ''VALIDATION_ERROR'', Message = ''Teapot not found''\<rparr>, ex_store) \<and>
   teas ex_store ''zz'' = None \<and>
   BrewHandler_Create ex_store (Inr (ex_brew_req ''a'' ''zz'')) 70 ''b3'' =
     (JSONError 400 \<lparr>Code = ''VALIDATION_ERROR'', Message = ''Tea not found''\<rparr>, ex_store)"
proof -
  have a: "teapots ex_store ''zz'' = None" "teas ex_store ''zz'' = None"
    by (simp_all add: ex_store_def)
  from brew_create_missing_reference [where s = ex_store and req = "ex_brew_req ''zz'' ''t1''"
      and now = 70 and new_id = "''b3''"] a(1)
  obtain m1 where 1: "BrewHandler_Create ex_store (Inr (ex_brew_req ''zz'' ''t1'')) 70 ''b3'' =
     (JSONError 400 \<lparr>Code = ''VALIDATION_ERROR'', Message = m1\<rparr>, ex_store)"
    by (auto simp: ex_brew_req_def)
  from brew_create_missing_reference [where s = ex_store and req = "ex_brew_req ''a'' ''zz''"
      and now = 70 and new_id = "''b3''"] a(2)
  obtain m2 where 2: "BrewHandler_Create ex_store (Inr (ex_brew_req ''a'' ''zz'')) 70 ''b3'' =
     (JSONError 400 \<lparr>Code = ''VALIDATION_ERROR'', Message = m2\<rparr>, ex_store)"
    by (auto simp: ex_brew_req_def)
  have "fst (BrewHandler_Create ex_store (Inr (ex_brew_req ''zz'' ''t1'')) 70 ''b3'') =
      validation_error ''Teapot not found''"
    by (simp add: create_eval ex_defs ex_brew_req_def)
  with 1 have m1: "m1 = ''Teapot not found''"
    by (simp add: validation_error_def)
  have "fst (BrewHandler_Create ex_store (Inr (ex_brew_req ''a'' ''zz'')) 70 ''b3'') =
      validation_error ''Tea not found''"
    by (simp add: create_eval ex_defs ex_brew_req_def)
  with 2 have m2: "m2 = ''Tea not found''"
    by (simp add: validation_error_def)
  from a 1 2 m1 m2 show ?thesis by simp
qed

section \<open>Patching\<close>

lemma keyed_by_ID_store:
  "keyed_by_ID NewMemoryStore"
  "keyed_by_ID s \<Longrightarrow> keyed_by_ID (CreateTeapot s tp)"
  "keyed_by_ID s \<Longrightarrow> keyed_by_ID (UpdateTeapot s tp)"
  "keyed_by_ID s \<Longrightarrow> keyed_by_ID (snd (DeleteTeapot s k))"
  "keyed_by_ID s \<Longrightarrow> keyed_by_ID (CreateTea s tea)"
  "keyed_by_ID s \<Longrightarrow> keyed_by_ID (UpdateTea s tea)"
  "keyed_by_ID s \<Longrightarrow> keyed_by_ID (snd (DeleteTea s k))"
  "keyed_by_ID s \<Longrightarrow> keyed_by_ID (CreateBrew s brew)"
  "keyed_by_ID s \<Longrightarrow> keyed_by_ID (UpdateBrew s brew)"
  "keyed_by_ID s \<Longrightarrow> keyed_by_ID (snd (DeleteBrew s k))"
  "keyed_by_ID s \<Longrightarrow> keyed_by_ID (CreateSteep s steep)"
  by (auto simp: keyed_by_ID_def NewMemoryStore_def CreateTeapot_def UpdateTeapot_def
      DeleteTeapot_def CreateTea_def UpdateTea_def DeleteTea_def CreateBrew_def UpdateBrew_def
      DeleteBrew_def CreateSteep_def split: if_splits)

lemma TeapotHandler_Patch_eq:
  assumes "uuid_Parse id0" and "teapots s id0 = Some old"
  shows "TeapotHandler_Patch uuid_Parse s id0 (Inr req) now =
     (JSON StatusOK (patched_Teapot old req now), UpdateTeapot s (patched_Teapot old req now))"
proof -
  have "(let e1 = (case ptp_Name req of None \<Rightarrow> old | Some v \<Rightarrow> old\<lparr>tp_Name := v\<rparr>);
             e2 = (case ptp_Material req of None \<Rightarrow> e1 | Some v \<Rightarrow> e1\<lparr>tp_Material := v\<rparr>);
             e3 = (case ptp_CapacityMl req of None \<Rightarrow> e2 | Some v \<Rightarrow> e2\<lparr>tp_CapacityMl := v\<rparr>);
             e4 = (case ptp_Style req of None \<Rightarrow> e3 | Some v \<Rightarrow> e3\<lparr>tp_Style := v\<rparr>);
             e5 = (if ptp_Description req \<noteq> None
                   then e4\<lparr>tp_Description := ptp_Description req\<rparr> else e4)
         in e5\<lparr>tp_UpdatedAt := now\<rparr>) = patched_Teapot old req now"
    by (cases old) (simp add: patched_Teapot_def Let_def split: option.split)
  then show ?thesis
    using assms by (simp add: TeapotHandler_Patch_def GetTeapot_def Let_def)
qed

lemma TeaHandler_Patch_eq:
  assumes "uuid_Parse id0" and "teas s id0 = Some old"
  shows "TeaHandler_Patch uuid_Parse s id0 (Inr req) now =
     (JSON StatusOK (patched_Tea old req now), UpdateTea s (patched_Tea old req now))"
proof -
  have "(let e1 = (case ptea_Name req of None \<Rightarrow> old | Some v \<Rightarrow> old\<lparr>tea_Name := v\<rparr>);
             e2 = (case ptea_Type req of None \<Rightarrow> e1 | Some v \<Rightarrow> e1\<lparr>tea_Type := v\<rparr>);
             e3 = (if ptea_Origin req \<noteq> None then e2\<lparr>tea_Origin := ptea_Origin req\<rparr> else e2);
             e4 = (case ptea_CaffeineLevel req of None \<Rightarrow> e3
                   | Some v \<Rightarrow> e3\<lparr>tea_CaffeineLevel := v\<rparr>);
             e5 = (case ptea_SteepTempCelsius req of None \<Rightarrow> e4
                   | Some v \<Rightarrow> e4\<lparr>tea_SteepTempCelsius := v\<rparr>);
             e6 = (case ptea_SteepTimeSeconds req of None \<Rightarrow> e5
                   | Some v \<Rightarrow> e5\<lparr>tea_SteepTimeSeconds := v\<rparr>);
             e7 = (if ptea_Description req \<noteq> None
                   then e6\<lparr>tea_Description := ptea_Description req\<rparr> else e6)
         in e7\<lparr>tea_UpdatedAt := now\<rparr>) = patched_Tea old req now"
    by (cases old) (simp add: patched_Tea_def Let_def split: option.split)
  then show ?thesis
    using assms by (simp add: TeaHandler_Patch_def GetTea_def Let_def)
qed

lemma BrewHandler_Patch_eq:
  assumes "uuid_Parse id0" and "brews s id0 = Some old"
  shows "BrewHandler_Patch uuid_Parse s id0 (Inr req) now =
     (JSON StatusOK (patched_Brew old req now), UpdateBrew s (patched_Brew old req now))"
proof -
  have "(let e1 = (case pb_Status req of None \<Rightarrow> old | Some v \<Rightarrow> old\<lparr>brew_Status := v\<rparr>);
             e2 = (if pb_Notes req \<noteq> None then e1\<lparr>brew_Notes := pb_Notes req\<rparr> else e1);
             e3 = (if pb_CompletedAt req \<noteq> None
                   then e2\<lparr>brew_CompletedAt := pb_CompletedAt req\<rparr> else e2)
         in e3\<lparr>brew_UpdatedAt := now\<rparr>) = patched_Brew old req now"
    by (cases old) (simp add: patched_Brew_def Let_def split: option.split)
  then show ?thesis
    using assms by (simp add: BrewHandler_Patch_def GetBrew_def Let_def)
qed

text \<open>
  C9 (as amended). A patch of an existing teapot, tea or brew responds with, and stores
  under the same identifier, the record in which exactly the supplied fields have their
  supplied values and every other field its prior value; the identifier and \<open>CreatedAt\<close>
  are unchanged, and \<open>UpdatedAt\<close> is the reading \<open>time.Now().UTC()\<close> of the clock at the
  patch, whatever the previous \<open>UpdatedAt\<close> was. Nothing else in the store changes.
\<close>

theorem patch_changes_supplied_fields:
  assumes u: "uuid_Parse id0" and k: "keyed_by_ID s"
  shows
   "(teapots s id0 = Some tp \<longrightarrow>
       TeapotHandler_Patch uuid_Parse s id0 (Inr treq) now =
         (JSON StatusOK (patched_Teapot tp treq now),
          s\<lparr>teapots := (teapots s)(id0 \<mapsto> patched_Teapot tp treq now)\<rparr>) \<and>
       GetTeapot (snd (TeapotHandler_Patch uuid_Parse s id0 (Inr treq) now)) id0 =
         (patched_Teapot tp treq now, True) \<and>
       tp_ID (patched_Teapot tp treq now) = tp_ID tp \<and>
       tp_CreatedAt (patched_Teapot tp treq now) = tp_CreatedAt tp \<and>
       tp_UpdatedAt (patched_Teapot tp treq now) = now) \<and>
    (teas s id0 = Some tea \<longrightarrow>
       TeaHandler_Patch uuid_Parse s id0 (Inr ereq) now =
         (JSON StatusOK (patched_Tea tea ereq now),
          s\<lparr>teas := (teas s)(id0 \<mapsto> patched_Tea tea ereq now)\<rparr>) \<and>
       GetTea (snd (TeaHandler_Patch uuid_Parse s id0 (Inr ereq) now)) id0 =
         (patched_Tea tea ereq now, True) \<and>
       tea_ID (patched_Tea tea ereq now) = tea_ID tea \<and>
       tea_CreatedAt (patched_Tea tea ereq now) = tea_CreatedAt tea \<and>
       tea_UpdatedAt (patched_Tea tea ereq now) = now) \<and>
    (brews s id0 = Some brew \<longrightarrow>
       BrewHandler_Patch uuid_Parse s id0 (Inr breq) now =
         (JSON StatusOK (patched_Brew brew breq now),
          s\<lparr>brews := (brews s)(id0 \<mapsto> patched_Brew brew breq now)\<rparr>) \<and>
       GetBrew (snd (BrewHandler_Patch uuid_Parse s id0 (Inr breq) now)) id0 =
         (patched_Brew brew breq now, True) \<and>
       brew_ID (patched_Brew brew breq now) = brew_ID brew \<and>
       brew_CreatedAt (patched_Brew brew breq now) = brew_CreatedAt brew \<and>
       brew_UpdatedAt (patched_Brew brew breq now) = now)"
  (is "?T \<and> ?E \<and> ?B")
proof -
  have t: ?T
  proof (intro impI)
    assume h: "teapots s id0 = Some tp"
    then have i: "tp_ID tp = id0" using k by (simp add: keyed_by_ID_def)
    have "tp_ID (patched_Teapot tp treq now) = id0" using i by (simp add: patched_Teapot_def)
    then have e: "UpdateTeapot s (patched_Teapot tp treq now) =
        s\<lparr>teapots := (teapots s)(id0 \<mapsto> patched_Teapot tp treq now)\<rparr>"
      by (simp add: UpdateTeapot_def)
    from h show "TeapotHandler_Patch uuid_Parse s id0 (Inr treq) now =
         (JSON StatusOK (patched_Teapot tp treq now),
          s\<lparr>teapots := (teapots s)(id0 \<mapsto> patched_Teapot tp treq now)\<rparr>) \<and>
       GetTeapot (snd (TeapotHandler_Patch uuid_Parse s id0 (Inr treq) now)) id0 =
         (patched_Teapot tp treq now, True) \<and>
       tp_ID (patched_Teapot tp treq now) = tp_ID tp \<and>
       tp_CreatedAt (patched_Teapot tp treq now) = tp_CreatedAt tp \<and>
       tp_UpdatedAt (patched_Teapot tp treq now) = now"
      unfolding TeapotHandler_Patch_eq [where uuid_Parse = uuid_Parse, OF u h] e
      by (simp add: GetTeapot_def) (simp add: patched_Teapot_def)
  qed
  have e: ?E
  proof (intro impI)
    assume h: "teas s id0 = Some tea"
    then have i: "tea_ID tea = id0" using k by (simp add: keyed_by_ID_def)
    have "tea_ID (patched_Tea tea ereq now) = id0" using i by (simp add: patched_Tea_def)
    then have e: "UpdateTea s (patched_Tea tea ereq now) =
        s\<lparr>teas := (teas s)(id0 \<mapsto> patched_Tea tea ereq now)\<rparr>"
      by (simp add: UpdateTea_def)
    from h show "TeaHandler_Patch uuid_Parse s id0 (Inr ereq) now =
         (JSON StatusOK (patched_Tea tea ereq now),
          s\<lparr>teas := (teas s)(id0 \<mapsto> patched_Tea tea ereq now)\<rparr>) \<and>
       GetTea (snd (TeaHandler_Patch uuid_Parse s id0 (Inr ereq) now)) id0 =
         (patched_Tea tea ereq now, True) \<and>
       tea_ID (patched_Tea tea ereq now) = tea_ID tea \<and>
       tea_CreatedAt (patched_Tea tea ereq now) = tea_CreatedAt tea \<and>
       tea_UpdatedAt (patched_Tea tea ereq now) = now"
      unfolding TeaHandler_Patch_eq [where uuid_Parse = uuid_Parse, OF u h] e
      by (simp add: GetTea_def) (simp add: patched_Tea_def)
  qed
  have b: ?B
  proof (intro impI)
    assume h: "brews s id0 = Some brew"
    then have i: "brew_ID brew = id0" using k by (simp add: keyed_by_ID_def)
    have "brew_ID (patched_Brew brew breq now) = id0" using i by (simp add: patched_Brew_def)
    then have e: "UpdateBrew s (patched_Brew brew breq now) =
        s\<lparr>brews := (brews s)(id0 \<mapsto> patched_Brew brew breq now)\<rparr>"
      by (simp add: UpdateBrew_def)
    from h show "BrewHandler_Patch uuid_Parse s id0 (Inr breq) now =
         (JSON StatusOK (patched_Brew brew breq now),
          s\<lparr>brews := (brews s)(id0 \<mapsto> patched_Brew brew breq now)\<rparr>) \<and>
       GetBrew (snd (BrewHandler_Patch uuid_Parse s id0 (Inr breq) now)) id0 =
         (patched_Brew brew breq now, True) \<and>
       brew_ID (patched_Brew brew breq now) = brew_ID brew \<and>
       brew_CreatedAt (patched_Brew brew breq now) = brew_CreatedAt brew \<and>
       brew_UpdatedAt (patched_Brew brew breq now) = now"
      unfolding BrewHandler_Patch_eq [where uuid_Parse = uuid_Parse, OF u h] e
      by (simp add: GetBrew_def) (simp add: patched_Brew_def)
  qed
  from t e b show ?thesis by blast
qed

theorem patch_changes_supplied_fields_witness:
  "keyed_by_ID ex_store \<and>
   teapots ex_store ''a'' = Some (ex_teapot ''a'' ''clay'' ''kyusu'' 10) \<and>
   fst (TeapotHandler_Patch (\<lambda>i. True) ex_store ''a'' (Inr ex_patch) 100) =
     JSON 200 \<lparr>tp_ID = ''a'', tp_Name = ''Renamed'', tp_Material = ''clay'', tp_CapacityMl = 400,
       tp_Style = ''kyusu'', tp_Description = None, tp_CreatedAt = 10, tp_UpdatedAt = 100\<rparr> \<and>
   GetTeapot (snd (TeapotHandler_Patch (\<lambda>i. True) ex_store ''a'' (Inr ex_patch) 100)) ''a'' =
     (\<lparr>tp_ID = ''a'', tp_Name = ''Renamed'', tp_Material = ''clay'', tp_CapacityMl = 400,
       tp_Style = ''kyusu'', tp_Description = None, tp_CreatedAt = 10, tp_UpdatedAt = 100\<rparr>, True) \<and>
   GetTeapot (snd (TeapotHandler_Patch (\<lambda>i. True) ex_store ''a'' (Inr ex_patch) 100)) ''b'' =
     GetTeapot ex_store ''b''"
proof -
  have k: "keyed_by_ID ex_store"
    by (auto simp: keyed_by_ID_def ex_defs split: if_splits)
  have t: "teapots ex_store ''a'' = Some (ex_teapot ''a'' ''clay'' ''kyusu'' 10)"
    by (simp add: ex_store_def)
  have p: "patched_Teapot (ex_teapot ''a'' ''clay'' ''kyusu'' 10) ex_patch 100 =
     \<lparr>tp_ID = ''a'', tp_Name = ''Renamed'', tp_Material = ''clay'', tp_CapacityMl = 400,
       tp_Style = ''kyusu'', tp_Description = None, tp_CreatedAt = 10, tp_UpdatedAt = 100\<rparr>"
    by (simp add: patched_Teapot_def ex_teapot_def ex_patch_def)
  note th = patch_changes_supplied_fields [where uuid_Parse = "\<lambda>i. True" and s = ex_store
      and ?id0.0 = "''a''" and tp = "ex_teapot ''a'' ''clay'' ''kyusu'' 10" and now = 100
      and treq = ex_patch, OF TrueI k]
  from th t
  have r: "TeapotHandler_Patch (\<lambda>i. True) ex_store ''a'' (Inr ex_patch) 100 =
         (JSON StatusOK (patched_Teapot (ex_teapot ''a'' ''clay'' ''kyusu'' 10) ex_patch 100),
          ex_store\<lparr>teapots := (teapots ex_store)(''a'' \<mapsto>
            patched_Teapot (ex_teapot ''a'' ''clay'' ''kyusu'' 10) ex_patch 100)\<rparr>)"
    by blast
  from k t show ?thesis unfolding r p by (simp add: StatusOK_def GetTeapot_def)
qed

text \<open>
  The claim as stated, with \<open>UpdatedAt\<close> never earlier than before, fails: the handler
  stores the clock's reading without comparing it. A patch at the reading 3 of a teapot
  whose \<open>UpdatedAt\<close> is 10 leaves it with \<open>UpdatedAt\<close> 3.
\<close>

theorem patch_UpdatedAt_counterexample:
  "keyed_by_ID ex_store \<and>
   GetTeapot ex_store ''a'' = (ex_teapot ''a'' ''clay'' ''kyusu'' 10, True) \<and>
   tp_UpdatedAt (ex_teapot ''a'' ''clay'' ''kyusu'' 10) = 10 \<and>
   TeapotHandler_Patch (\<lambda>i. True) ex_store ''a'' (Inr ex_patch) 3 =
     (JSON 200 \<lparr>tp_ID = ''a'', tp_Name = ''Renamed'', tp_Material = ''clay'', tp_CapacityMl = 400,
        tp_Style = ''kyusu'', tp_Description = None, tp_CreatedAt = 10, tp_UpdatedAt = 3\<rparr>,
      UpdateTeapot ex_store
        \<lparr>tp_ID = ''a'', tp_Name = ''Renamed'', tp_Material = ''clay'', tp_CapacityMl = 400,
         tp_Style = ''kyusu'', tp_Description = None, tp_CreatedAt = 10, tp_UpdatedAt = 3\<rparr>) \<and>
   \<not> tp_UpdatedAt (ex_teapot ''a'' ''clay'' ''kyusu'' 10) \<le>
     tp_UpdatedAt (fst (GetTeapot
       (snd (TeapotHandler_Patch (\<lambda>i. True) ex_store ''a'' (Inr ex_patch) 3)) ''a''))"
proof -
  have k: "keyed_by_ID ex_store"
    by (auto simp: keyed_by_ID_def ex_defs split: if_splits)
  have r: "TeapotHandler_Patch (\<lambda>i. True) ex_store ''a'' (Inr ex_patch) 3 =
     (JSON 200 \<lparr>tp_ID = ''a'', tp_Name = ''Renamed'', tp_Material = ''clay'', tp_CapacityMl = 400,
        tp_Style = ''kyusu'', tp_Description = None, tp_CreatedAt = 10, tp_UpdatedAt = 3\<rparr>,
      UpdateTeapot ex_store
        \<lparr>tp_ID = ''a'', tp_Name = ''Renamed'', tp_Material = ''clay'', tp_CapacityMl = 400,
         tp_Style = ''kyusu'', tp_Description = None, tp_CreatedAt = 10, tp_UpdatedAt = 3\<rparr>)"
    by (simp add: TeapotHandler_Patch_def GetTeapot_def Let_def StatusOK_def ex_defs ex_patch_def)
  show ?thesis
    unfolding r using k by (simp add: GetTeapot_def UpdateTeapot_def ex_defs)
qed

end
